theory Spec2Isabelle
  imports Main "HOL-Library.Word" "HOL-Library.Numeral_Type"
begin

unbundle bit_operations_syntax

section \<open>Mess portal: vote deduplication and admin authentication\<close>

text \<open>
  A shallow embedding of \<^verbatim>\<open>src/models/mess_models.py\<close>,
  \<^verbatim>\<open>src/routes/mess_routes.py\<close> and the authentication part of
  \<^verbatim>\<open>src/routes/admin_routes.py\<close>.

  Conventions of the model.
  \<^item> Text is \<^typ>\<open>string\<close>, read as ASCII text. \<^verbatim>\<open>str.encode()\<close> is then
    the identity and \<^verbatim>\<open>len\<close> is \<^const>\<open>length\<close>.
  \<^item> A \<^verbatim>\<open>datetime\<close> is an \<^typ>\<open>int\<close>: microseconds since the epoch. One
    handler invocation reads the clock at one instant, its argument \<open>now\<close>.
  \<^item> The JSON body of a request is an object whose values are strings (or the JSON
    \<^verbatim>\<open>null\<close>); a field may be absent or empty.
  \<^item> What the program takes from libraries (SHA-256, MD5, the JWT codec, the printing of a
    float) is a field of the record \<open>extern\<close>, and every theorem holds for every value of it.
    Random draws (\<^verbatim>\<open>secrets\<close>) are arguments.
  \<^item> The relational store is a record of tables, each a list of rows in insertion order; a
    handler takes the store and returns the store it leaves behind.
\<close>

subsection \<open>Strings\<close>

text \<open>\<^verbatim>\<open>str.lower()\<close> on ASCII text: \<^verbatim>\<open>A\<close>..\<^verbatim>\<open>Z\<close> become
  \<^verbatim>\<open>a\<close>..\<^verbatim>\<open>z\<close>, every other character stays.\<close>

definition lower_char :: "char \<Rightarrow> char" where
  "lower_char c =
     (let n = (of_char c :: nat) in if 65 \<le> n \<and> n \<le> 90 then char_of (n + 32) else c)"

definition lower :: "string \<Rightarrow> string" where
  "lower s = map lower_char s"

text \<open>\<^verbatim>\<open>s.split(sep)\<close> for a one-character separator: the pieces between the
  separators, empty pieces kept; the result is never empty.\<close>

fun str_split :: "char \<Rightarrow> string \<Rightarrow> string list" where
  "str_split sep [] = [[]]"
| "str_split sep (c # cs) =
     (if c = sep then [] # str_split sep cs
      else (case str_split sep cs of
              [] \<Rightarrow> [[c]]
            | p # ps \<Rightarrow> (c # p) # ps))"

text \<open>\<^verbatim>\<open>s.startswith(p)\<close>.\<close>

definition startswith :: "string \<Rightarrow> string \<Rightarrow> bool" where
  "startswith s p = (take (length p) s = p)"

subsection \<open>Digests\<close>

text \<open>A digest is a word of its size; \<^verbatim>\<open>hexdigest()\<close> prints it as lower-case
  hexadecimal digits, most significant first, four bits a digit.\<close>

definition hex_digit :: "nat \<Rightarrow> char" where
  "hex_digit n = ''0123456789abcdef'' ! (n mod 16)"

definition hexdigest :: "'a::len word \<Rightarrow> string" where
  "hexdigest w =
     map (\<lambda>i. hex_digit (unat (drop_bit (4 * i) w AND 15))) (rev [0..<LENGTH('a) div 4])"

type_synonym datetime = int

record jwt_payload =
  admin_id :: int
  exp :: int
  iat :: int

text \<open>The library functions the program calls. \<open>jwt_encode key payload\<close> is
  \<^verbatim>\<open>jwt.encode(payload, key, algorithm='HS256')\<close>; \<open>jwt_decode key token\<close> is the
  signature and format check of \<^verbatim>\<open>jwt.decode\<close>, \<open>None\<close> for
  \<^verbatim>\<open>InvalidTokenError\<close> (the expiry check is \<open>verify_jwt_token\<close>'s, below).
  \<open>str_timestamp t\<close> is \<^verbatim>\<open>str(t.timestamp())\<close>. \<open>jwt_secret_key\<close> is the module
  constant \<^verbatim>\<open>JWT_SECRET_KEY\<close>, read from the environment.\<close>

record extern =
  sha256 :: "string \<Rightarrow> 256 word"
  md5 :: "string \<Rightarrow> 128 word"
  str_timestamp :: "datetime \<Rightarrow> string"
  jwt_secret_key :: string
  jwt_encode :: "string \<Rightarrow> jwt_payload \<Rightarrow> string"
  jwt_decode :: "string \<Rightarrow> string \<Rightarrow> jwt_payload option"

subsection \<open>The identity deriver\<close>

text \<open>\<^verbatim>\<open>create_user_identifier(ip_address, user_agent, additional_data=None)\<close>.
  \<^verbatim>\<open>if additional_data:\<close> is Python truthiness: \<open>None\<close> and the empty string both
  skip the suffix.\<close>

definition identifier_data :: "string \<Rightarrow> string \<Rightarrow> string option \<Rightarrow> string" where
  "identifier_data ip_address user_agent additional_data =
     (let identifier_data = ip_address @ '':'' @ user_agent in
      case additional_data of
        None \<Rightarrow> identifier_data
      | Some extra \<Rightarrow> if extra \<noteq> [] then identifier_data @ '':'' @ extra else identifier_data)"

definition create_user_identifier ::
  "extern \<Rightarrow> string \<Rightarrow> string \<Rightarrow> string option \<Rightarrow> string" where
  "create_user_identifier ext ip_address user_agent additional_data =
     take 32 (hexdigest (sha256 ext (identifier_data ip_address user_agent additional_data)))"

subsection \<open>Password hashing\<close>

datatype py_exception = ValueError | TypeError | KeyError | IndexError

text \<open>\<^verbatim>\<open>AdminUser.hash_password\<close>. \<^verbatim>\<open>secrets.token_hex(16)\<close> prints sixteen
  random bytes as 32 hexadecimal digits; the bytes drawn are the argument \<open>salt_bytes\<close>.\<close>

definition token_hex16 :: "128 word \<Rightarrow> string" where
  "token_hex16 salt_bytes = hexdigest salt_bytes"

definition hash_password :: "extern \<Rightarrow> 128 word \<Rightarrow> string \<Rightarrow> string" where
  "hash_password ext salt_bytes password =
     (let salt = token_hex16 salt_bytes;
          password_hash = hexdigest (sha256 ext (password @ salt))
      in salt @ '':'' @ password_hash)"

text \<open>\<^verbatim>\<open>AdminUser.verify_password\<close>, in two layers. The body of the
  \<^verbatim>\<open>try\<close>: unpacking \<^verbatim>\<open>salt, stored_hash = password_hash.split(':')\<close> raises
  \<^verbatim>\<open>ValueError\<close> unless the split has exactly two pieces.\<close>

definition verify_password_try :: "extern \<Rightarrow> string \<Rightarrow> string \<Rightarrow> py_exception + bool" where
  "verify_password_try ext password_hash password =
     (case str_split CHR '':'' password_hash of
        [salt, stored_hash] \<Rightarrow> Inr (hexdigest (sha256 ext (password @ salt)) = stored_hash)
      | _ \<Rightarrow> Inl ValueError)"

text \<open>The \<^verbatim>\<open>except ValueError: return False\<close> around it; any other exception
  would pass through.\<close>

definition verify_password :: "extern \<Rightarrow> string \<Rightarrow> string \<Rightarrow> py_exception + bool" where
  "verify_password ext password_hash password =
     (case verify_password_try ext password_hash password of
        Inl ValueError \<Rightarrow> Inr False
      | Inl e \<Rightarrow> Inl e
      | Inr b \<Rightarrow> Inr b)"

subsection \<open>The tables\<close>

text \<open>One record a model class, one field a column, under the column's name. The primary
  key \<open>id\<close> is assigned by the store at insertion. \<^verbatim>\<open>timestamp\<close>,
  \<^verbatim>\<open>created_at\<close> and \<^verbatim>\<open>upload_date\<close> default to the clock at insertion.
  Columns that may be \<^verbatim>\<open>NULL\<close> and are read by the modelled code are options.\<close>

record vote =
  id :: int
  day :: string
  meal :: string
  dish :: string
  user_identifier :: string
  ip_address :: string
  timestamp :: datetime
  session_id :: string

record feedback =
  id :: int
  feedback_type :: string
  message :: string
  rating :: "int option"
  ip_address :: string
  timestamp :: datetime
  session_id :: string

record complaint =
  id :: int
  category :: string
  message :: string
  urgency :: string
  ip_address :: string
  timestamp :: datetime
  session_id :: string
  status :: string
  photos :: "string option"

record menu_suggestion =
  id :: int
  dish_name :: string
  meal_type :: string
  ingredients :: string
  description :: string
  ip_address :: string
  timestamp :: datetime
  session_id :: string

record menu_pdf =
  id :: int
  filename :: string
  original_filename :: string
  file_size :: "int option"
  upload_date :: datetime
  uploaded_by :: "int option"

record admin_user =
  id :: int
  username :: string
  password_hash :: string
  email :: "string option"
  created_at :: datetime
  last_login :: "datetime option"
  is_active :: bool

record admin_session =
  id :: int
  admin_id :: int
  token :: string
  created_at :: datetime
  expires_at :: datetime
  ip_address :: string

text \<open>The store. \<open>strict_varchar\<close> tells the engine behind \<^verbatim>\<open>DATABASE_URL\<close>:
  PostgreSQL refuses a value longer than the declared \<^verbatim>\<open>String(n)\<close>
  (\<open>True\<close>); the SQLite fallback does not look at the length (\<open>False\<close>).\<close>

record db =
  strict_varchar :: bool
  votes :: "vote list"
  feedbacks :: "feedback list"
  complaints :: "complaint list"
  menu_suggestions :: "menu_suggestion list"
  menu_pdfs :: "menu_pdf list"
  admin_users :: "admin_user list"
  admin_sessions :: "admin_session list"

datatype db_error = IntegrityError | DataError

definition fits :: "db \<Rightarrow> nat \<Rightarrow> string \<Rightarrow> bool" where
  "fits d n s = (if strict_varchar d then length s \<le> n else True)"

text \<open>A fresh primary key: one more than the largest in the table.\<close>

definition next_id :: "int list \<Rightarrow> int" where
  "next_id ids = fold max ids 0 + 1"

subsection \<open>Requests and replies\<close>

record request =
  json :: "(string \<rightharpoonup> string) option"
  http_x_forwarded_for :: "string option"
  remote_addr :: string
  user_agent :: "string option"
  authorization :: "string option"

datatype error_code =
    MISSING_FIELD string
  | DUPLICATE_VOTE
  | INTERNAL_ERROR
  | UNAUTHORIZED
  | INVALID_TOKEN
  | ADMIN_NOT_FOUND
  | MISSING_CREDENTIALS
  | INVALID_CREDENTIALS
  | ACCOUNT_DISABLED
  | INVALID_PASSWORD
  | WEAK_PASSWORD

text \<open>A reply is the HTTP status with either the payload of a
  \<^verbatim>\<open>'success': True\<close> body or the \<^verbatim>\<open>error.code\<close> of a failure.\<close>

datatype 'a reply = Success nat 'a | Failure nat error_code

definition get_client_ip :: "request \<Rightarrow> string" where
  "get_client_ip req =
     (case http_x_forwarded_for req of
        None \<Rightarrow> remote_addr req
      | Some fwd \<Rightarrow> fwd)"

definition get_user_agent :: "request \<Rightarrow> string" where
  "get_user_agent req = (case user_agent req of None \<Rightarrow> [] | Some ua \<Rightarrow> ua)"

definition create_session_id :: "extern \<Rightarrow> datetime \<Rightarrow> request \<Rightarrow> string" where
  "create_session_id ext now req =
     (let timestamp = str_timestamp ext now;
          ip = get_client_ip req;
          user_agent = get_user_agent req;
          session_data = timestamp @ '':'' @ ip @ '':'' @ user_agent
      in hexdigest (md5 ext session_data))"

text \<open>\<^verbatim>\<open>field not in data or not data[field]\<close>: the key is absent or its value is
  the empty string.\<close>

definition missing :: "(string \<rightharpoonup> string) \<Rightarrow> string \<Rightarrow> bool" where
  "missing data field = (case data field of None \<Rightarrow> True | Some v \<Rightarrow> v = [])"

subsection \<open>The vote ledger\<close>

text \<open>\<^verbatim>\<open>Vote.query.filter_by(day=.., meal=.., user_identifier=..).first()\<close>.\<close>

definition query_vote :: "db \<Rightarrow> string \<Rightarrow> string \<Rightarrow> string \<Rightarrow> vote option" where
  "query_vote d dy ml uid =
     find (\<lambda>v. vote.day v = dy \<and> vote.meal v = ml \<and> user_identifier v = uid) (votes d)"

text \<open>\<^verbatim>\<open>db.session.add(vote); db.session.commit()\<close>: the store checks the declared
  lengths and the constraint \<^verbatim>\<open>unique_vote\<close> on (day, meal, user_identifier), then
  appends the row under a fresh id with the clock as \<^verbatim>\<open>timestamp\<close>.\<close>

definition insert_vote ::
  "db \<Rightarrow> datetime \<Rightarrow> string \<Rightarrow> string \<Rightarrow> string \<Rightarrow> string \<Rightarrow> string \<Rightarrow> string
     \<Rightarrow> db_error + vote \<times> db" where
  "insert_vote d now dy ml dsh uid ip sid =
     (if \<not> (fits d 20 dy \<and> fits d 20 ml \<and> fits d 100 dsh \<and> fits d 100 uid \<and> fits d 45 ip
             \<and> fits d 100 sid)
      then Inl DataError
      else if query_vote d dy ml uid \<noteq> None then Inl IntegrityError
      else
        (let v = \<lparr>vote.id = next_id (map vote.id (votes d)), day = dy, meal = ml, dish = dsh,
                   user_identifier = uid, ip_address = ip, timestamp = now, session_id = sid\<rparr>
         in Inr (v, d\<lparr>votes := votes d @ [v]\<rparr>)))"

text \<open>\<^verbatim>\<open>submit_vote\<close>. The handler first queries the table, then inserts. Other
  requests may commit in between, so the model takes the table as the query sees it
  (\<open>d_query\<close>) and as the insert finds it (\<open>d_commit\<close>), and returns the reply with the
  store left behind. Every exception inside the \<^verbatim>\<open>try\<close> (a \<^verbatim>\<open>TypeError\<close>
  on a \<^verbatim>\<open>null\<close> body, a \<^verbatim>\<open>KeyError\<close>, an error of the store) ends in the
  \<^verbatim>\<open>except Exception\<close> branch: rollback and \<^verbatim>\<open>INTERNAL_ERROR\<close>.\<close>

definition submit_vote_racing ::
  "extern \<Rightarrow> datetime \<Rightarrow> request \<Rightarrow> db \<Rightarrow> db \<Rightarrow> int reply \<times> db" where
  "submit_vote_racing ext now req d_query d_commit =
     (case json req of
        None \<Rightarrow> (Failure 500 INTERNAL_ERROR, d_commit)
      | Some data \<Rightarrow>
          (case find (missing data) [''day'', ''meal'', ''dish''] of
             Some field \<Rightarrow> (Failure 400 (MISSING_FIELD field), d_commit)
           | None \<Rightarrow>
               (case (data ''day'', data ''meal'', data ''dish'') of
                  (Some dy, Some ml, Some dsh) \<Rightarrow>
                    (let ip_address = get_client_ip req;
                         user_agent = get_user_agent req;
                         user_identifier = create_user_identifier ext ip_address user_agent None;
                         session_id = create_session_id ext now req;
                         existing_vote = query_vote d_query (lower dy) (lower ml) user_identifier
                     in if existing_vote \<noteq> None then (Failure 400 DUPLICATE_VOTE, d_commit)
                        else
                          (case insert_vote d_commit now (lower dy) (lower ml) dsh
                                  user_identifier ip_address session_id of
                             Inl err \<Rightarrow> (Failure 500 INTERNAL_ERROR, d_commit)
                           | Inr (v, d') \<Rightarrow> (Success 201 (vote.id v), d')))
                | _ \<Rightarrow> (Failure 500 INTERNAL_ERROR, d_commit))))"

text \<open>One request on its own: nothing is committed between its query and its insert.\<close>

definition submit_vote :: "extern \<Rightarrow> datetime \<Rightarrow> request \<Rightarrow> db \<Rightarrow> int reply \<times> db" where
  "submit_vote ext now req d = submit_vote_racing ext now req d d"


text \<open>The invariant of the ledger: no two rows share (day, meal, user_identifier).\<close>

definition vote_key :: "vote \<Rightarrow> string \<times> string \<times> string" where
  "vote_key v = (vote.day v, vote.meal v, user_identifier v)"

definition unique_vote :: "db \<Rightarrow> bool" where
  "unique_vote d = distinct (map vote_key (votes d))"

subsection \<open>The token authority\<close>

text \<open>\<^verbatim>\<open>timedelta(hours=h)\<close> in microseconds, and the whole seconds since the epoch
  that \<^verbatim>\<open>jwt.encode\<close> writes for a \<^verbatim>\<open>datetime\<close> claim.\<close>

definition hours :: "int \<Rightarrow> int" where
  "hours h = h * 3600000000"

definition epoch_seconds :: "datetime \<Rightarrow> int" where
  "epoch_seconds t = t div 1000000"

definition JWT_EXPIRATION_HOURS :: int where
  "JWT_EXPIRATION_HOURS = 1"

definition generate_jwt_token :: "extern \<Rightarrow> datetime \<Rightarrow> int \<Rightarrow> string" where
  "generate_jwt_token ext now aid =
     (let payload = \<lparr>jwt_payload.admin_id = aid,
                      exp = epoch_seconds (now + hours JWT_EXPIRATION_HOURS),
                      iat = epoch_seconds now\<rparr>
      in jwt_encode ext (jwt_secret_key ext) payload)"

text \<open>\<^verbatim>\<open>verify_jwt_token\<close>: \<open>None\<close> for either exception of \<^verbatim>\<open>jwt.decode\<close>.
  The library raises \<^verbatim>\<open>ExpiredSignatureError\<close> once the clock has reached the
  \<^verbatim>\<open>exp\<close> claim.\<close>

definition verify_jwt_token :: "extern \<Rightarrow> datetime \<Rightarrow> string \<Rightarrow> int option" where
  "verify_jwt_token ext now tok =
     (case jwt_decode ext (jwt_secret_key ext) tok of
        None \<Rightarrow> None
      | Some payload \<Rightarrow>
          if exp payload * 1000000 \<le> now then None
          else Some (jwt_payload.admin_id payload))"

text \<open>\<^verbatim>\<open>db.session.delete(session)\<close> deletes the row with the session's primary key.\<close>

definition delete_session :: "admin_session \<Rightarrow> db \<Rightarrow> db" where
  "delete_session s d =
     d\<lparr>admin_sessions :=
         filter (\<lambda>r. admin_session.id r \<noteq> admin_session.id s) (admin_sessions d)\<rparr>"

text \<open>\<^verbatim>\<open>cleanup_expired_sessions\<close>: the query, the loop of deletions, and the number of
  rows the query found.\<close>

definition cleanup_expired_sessions :: "datetime \<Rightarrow> db \<Rightarrow> nat \<times> db" where
  "cleanup_expired_sessions now d =
     (let expired_sessions = filter (\<lambda>s. expires_at s < now) (admin_sessions d)
      in (length expired_sessions, fold delete_session expired_sessions d))"

text \<open>\<^verbatim>\<open>AdminUser.query.get(admin_id)\<close> and
  \<^verbatim>\<open>AdminUser.query.filter_by(username=..).first()\<close>.\<close>

definition get_admin :: "db \<Rightarrow> int \<Rightarrow> admin_user option" where
  "get_admin d i = find (\<lambda>a. admin_user.id a = i) (admin_users d)"

definition find_admin :: "db \<Rightarrow> string \<Rightarrow> admin_user option" where
  "find_admin d name = find (\<lambda>a. username a = name) (admin_users d)"

text \<open>The decorator \<^verbatim>\<open>require_admin_auth\<close>, up to the call of the wrapped handler:
  either the reply that ends the request or the admin put in
  \<^verbatim>\<open>request.current_admin\<close>, with the store after the sweep. \<^verbatim>\<open>not admin_id\<close>
  holds for \<open>None\<close> and for 0. An \<^verbatim>\<open>IndexError\<close> at \<^verbatim>\<open>split(' ')[1]\<close> would
  leave the decorator as an internal error.\<close>

definition require_admin_auth ::
  "extern \<Rightarrow> datetime \<Rightarrow> request \<Rightarrow> db \<Rightarrow> (nat \<times> error_code + admin_user) \<times> db" where
  "require_admin_auth ext now req d =
     (let d1 = snd (cleanup_expired_sessions now d) in
      case authorization req of
        None \<Rightarrow> (Inl (401, UNAUTHORIZED), d1)
      | Some auth_header \<Rightarrow>
          if auth_header = [] \<or> \<not> startswith auth_header ''Bearer ''
          then (Inl (401, UNAUTHORIZED), d1)
          else
            (case str_split CHR '' '' auth_header of
               _ # tok # _ \<Rightarrow>
                 (case verify_jwt_token ext now tok of
                    None \<Rightarrow> (Inl (401, INVALID_TOKEN), d1)
                  | Some aid \<Rightarrow>
                      if aid = 0 then (Inl (401, INVALID_TOKEN), d1)
                      else
                        (case get_admin d1 aid of
                           None \<Rightarrow> (Inl (401, ADMIN_NOT_FOUND), d1)
                         | Some admin \<Rightarrow>
                             if \<not> is_active admin then (Inl (401, ADMIN_NOT_FOUND), d1)
                             else (Inr admin, d1)))
             | _ \<Rightarrow> (Inl (500, INTERNAL_ERROR), d1)))"

text \<open>\<^verbatim>\<open>AdminSession.create_session\<close>. The row has no \<^verbatim>\<open>id\<close> and no
  \<^verbatim>\<open>created_at\<close> before the store inserts it; the record holds 0 and the clock
  there, and \<open>insert_session\<close> writes both. \<open>random_token\<close> is what
  \<^verbatim>\<open>secrets.token_urlsafe(32)\<close> drew.\<close>

definition create_session :: "string \<Rightarrow> datetime \<Rightarrow> int \<Rightarrow> string \<Rightarrow> admin_session" where
  "create_session random_token now aid ip =
     (let token = random_token;
          expires_at = now + hours 1
      in \<lparr>admin_session.id = 0, admin_id = aid, token = token, created_at = now,
          expires_at = expires_at, ip_address = ip\<rparr>)"

text \<open>The insertion of a session row: the declared lengths, the \<^verbatim>\<open>unique=True\<close> of
  \<^verbatim>\<open>token\<close>, a fresh id, the clock as \<^verbatim>\<open>created_at\<close>.\<close>

definition insert_session :: "db \<Rightarrow> datetime \<Rightarrow> admin_session \<Rightarrow> db_error + db" where
  "insert_session d now s =
     (if \<not> (fits d 255 (token s) \<and> fits d 45 (admin_session.ip_address s)) then Inl DataError
      else if token s \<in> set (map token (admin_sessions d)) then Inl IntegrityError
      else Inr (d\<lparr>admin_sessions := admin_sessions d @
                   [s\<lparr>admin_session.id := next_id (map admin_session.id (admin_sessions d)),
                      created_at := now\<rparr>]\<rparr>))"

text \<open>The \<^verbatim>\<open>UPDATE\<close> the session flushes for a changed \<^verbatim>\<open>AdminUser\<close> object.\<close>

definition update_admin :: "db \<Rightarrow> admin_user \<Rightarrow> db" where
  "update_admin d a =
     d\<lparr>admin_users :=
         map (\<lambda>r. if admin_user.id r = admin_user.id a then a else r) (admin_users d)\<rparr>"

text \<open>\<^verbatim>\<open>admin_login\<close>. The payload of a success is the token,
  \<^verbatim>\<open>expires_in\<close> and the admin's id, username and email. The update of
  \<^verbatim>\<open>last_login\<close> and the new session row are one transaction: an error of the store
  rolls both back.\<close>

definition admin_login ::
  "extern \<Rightarrow> datetime \<Rightarrow> string \<Rightarrow> request \<Rightarrow> db
     \<Rightarrow> (string \<times> int \<times> int \<times> string \<times> string option) reply \<times> db" where
  "admin_login ext now random_token req d =
     (case json req of
        None \<Rightarrow> (Failure 400 MISSING_CREDENTIALS, d)
      | Some data \<Rightarrow>
          (case (data ''username'', data ''password'') of
             (Some name, Some password) \<Rightarrow>
               (case find_admin d name of
                  None \<Rightarrow> (Failure 401 INVALID_CREDENTIALS, d)
                | Some admin \<Rightarrow>
                    (case verify_password ext (password_hash admin) password of
                       Inl e \<Rightarrow> (Failure 500 INTERNAL_ERROR, d)
                     | Inr False \<Rightarrow> (Failure 401 INVALID_CREDENTIALS, d)
                     | Inr True \<Rightarrow>
                         if \<not> is_active admin then (Failure 401 ACCOUNT_DISABLED, d)
                         else
                           (let token = generate_jwt_token ext now (admin_user.id admin);
                                admin' = admin\<lparr>last_login := Some now\<rparr>;
                                ip_address = get_client_ip req;
                                session = (create_session random_token now (admin_user.id admin)
                                             ip_address)\<lparr>token := token\<rparr>
                            in case insert_session (update_admin d admin') now session of
                                 Inl err \<Rightarrow> (Failure 500 INTERNAL_ERROR, d)
                               | Inr d' \<Rightarrow>
                                   (Success 200
                                      (token, JWT_EXPIRATION_HOURS * 3600, admin_user.id admin,
                                       username admin, email admin), d'))))
           | _ \<Rightarrow> (Failure 400 MISSING_CREDENTIALS, d)))"

text \<open>\<^verbatim>\<open>AdminSession.query.filter_by(admin_id=..).delete()\<close>.\<close>

definition delete_sessions_of :: "db \<Rightarrow> int \<Rightarrow> db" where
  "delete_sessions_of d i =
     d\<lparr>admin_sessions := filter (\<lambda>s. admin_session.admin_id s \<noteq> i) (admin_sessions d)\<rparr>"

text \<open>\<^verbatim>\<open>change_password\<close> under its decorator.\<close>

definition change_password ::
  "extern \<Rightarrow> datetime \<Rightarrow> 128 word \<Rightarrow> request \<Rightarrow> db \<Rightarrow> unit reply \<times> db" where
  "change_password ext now salt_bytes req d =
     (case require_admin_auth ext now req d of
        (Inl (st, code), d1) \<Rightarrow> (Failure st code, d1)
      | (Inr admin, d1) \<Rightarrow>
          (case json req of
             None \<Rightarrow> (Failure 500 INTERNAL_ERROR, d1)
           | Some data \<Rightarrow>
               (case find (missing data) [''current_password'', ''new_password''] of
                  Some field \<Rightarrow> (Failure 400 (MISSING_FIELD field), d1)
                | None \<Rightarrow>
                    (case (data ''current_password'', data ''new_password'') of
                       (Some current_password, Some new_password) \<Rightarrow>
                         (case verify_password ext (password_hash admin) current_password of
                            Inl e \<Rightarrow> (Failure 500 INTERNAL_ERROR, d1)
                          | Inr False \<Rightarrow> (Failure 400 INVALID_PASSWORD, d1)
                          | Inr True \<Rightarrow>
                              if length new_password < 6 then (Failure 400 WEAK_PASSWORD, d1)
                              else
                                (let admin' = admin\<lparr>password_hash :=
                                                 hash_password ext salt_bytes new_password\<rparr>;
                                     d2 = update_admin d1 admin';
                                     d3 = delete_sessions_of d2 (admin_user.id admin)
                                 in (Success 200 (), d3)))
                     | _ \<Rightarrow> (Failure 500 INTERNAL_ERROR, d1)))))"

text \<open>\<^verbatim>\<open>verify_token\<close>, the route \<^verbatim>\<open>/verify-token\<close>. It is not under the
  decorator and does not call \<^verbatim>\<open>cleanup_expired_sessions\<close>. Its four answers all
  have status 200; the report tells the bodies apart: \<open>Header_missing\<close> is
  \<^verbatim>\<open>'valid': False\<close> with \<^verbatim>\<open>'Missing or invalid authorization header'\<close>,
  \<open>Token_invalid\<close> is \<^verbatim>\<open>'valid': False\<close> with \<^verbatim>\<open>'Invalid or expired token'\<close>,
  \<open>Admin_missing\<close> is \<^verbatim>\<open>'valid': False\<close> with
  \<^verbatim>\<open>'Admin user not found or inactive'\<close>, and \<open>Token_valid\<close> is
  \<^verbatim>\<open>'valid': True\<close> with the admin's id, username and email. An exception inside the
  \<^verbatim>\<open>try\<close> is the reply \<^verbatim>\<open>INTERNAL_ERROR\<close> with status 500.\<close>

datatype token_report =
    Header_missing
  | Token_invalid
  | Admin_missing
  | Token_valid int string "string option"

definition verify_token ::
  "extern \<Rightarrow> datetime \<Rightarrow> request \<Rightarrow> db \<Rightarrow> token_report reply \<times> db" where
  "verify_token ext now req d =
     (case authorization req of
        None \<Rightarrow> (Success 200 Header_missing, d)
      | Some auth_header \<Rightarrow>
          if auth_header = [] \<or> \<not> startswith auth_header ''Bearer ''
          then (Success 200 Header_missing, d)
          else
            (case str_split CHR '' '' auth_header of
               _ # tok # _ \<Rightarrow>
                 (case verify_jwt_token ext now tok of
                    None \<Rightarrow> (Success 200 Token_invalid, d)
                  | Some aid \<Rightarrow>
                      if aid = 0 then (Success 200 Token_invalid, d)
                      else
                        (case get_admin d aid of
                           None \<Rightarrow> (Success 200 Admin_missing, d)
                         | Some admin \<Rightarrow>
                             if \<not> is_active admin then (Success 200 Admin_missing, d)
                             else
                               (Success 200
                                  (Token_valid (admin_user.id admin) (username admin)
                                     (email admin)), d)))
             | _ \<Rightarrow> (Failure 500 INTERNAL_ERROR, d)))"

subsection \<open>A concrete scenario\<close>

text \<open>Stand-ins for the libraries and a small store, for evaluating the handlers on concrete
  requests. The digests are the length of the message; the token codec knows one token.\<close>

definition example_ext :: extern where
  "example_ext =
     \<lparr>sha256 = (\<lambda>s. of_nat (length s)), md5 = (\<lambda>s. of_nat (length s)),
      str_timestamp = (\<lambda>t. ''0.0''), jwt_secret_key = ''k'', jwt_encode = (\<lambda>k p. ''tok''),
      jwt_decode =
        (\<lambda>k s. if s = ''tok'' then Some \<lparr>jwt_payload.admin_id = 1, exp = 3600, iat = 0\<rparr>
               else None)\<rparr>"

definition example_admin :: admin_user where
  "example_admin =
     \<lparr>admin_user.id = 1, username = ''admin'',
      password_hash = hash_password example_ext 0 ''admin123'',
      email = Some ''admin@mess.portal'', created_at = 0, last_login = None, is_active = True\<rparr>"

definition example_db :: db where
  "example_db =
     \<lparr>strict_varchar = True, votes = [], feedbacks = [], complaints = [], menu_suggestions = [],
      menu_pdfs = [], admin_users = [example_admin], admin_sessions = []\<rparr>"

definition example_request :: "(string \<times> string) list \<Rightarrow> string option \<Rightarrow> request" where
  "example_request kvs auth =
     \<lparr>json = Some (map_of kvs), http_x_forwarded_for = None, remote_addr = ''10.0.0.1'',
      user_agent = Some ''curl'', authorization = auth\<rparr>"

text \<open>A token codec that does round-trip, for the scenarios that issue a token and present
  it again: a payload is printed as its three integers in binary with a sign, separated by
  dots, and read back from that. It signs nothing and ignores the key.\<close>

fun bits :: "nat \<Rightarrow> string" where
  "bits n = (if n = 0 then [] else bits (n div 2) @ [if even n then CHR ''0'' else CHR ''1''])"

declare bits.simps [simp del]

definition unbits :: "string \<Rightarrow> nat" where
  "unbits s = foldl (\<lambda>a c. 2 * a + (if c = CHR ''1'' then 1 else 0)) 0 s"

definition print_int :: "int \<Rightarrow> string" where
  "print_int i = (if i < 0 then CHR ''-'' # bits (nat (- i)) else CHR ''+'' # bits (nat i))"

definition parse_int :: "string \<Rightarrow> int" where
  "parse_int s =
     (case s of
        [] \<Rightarrow> 0
      | c # r \<Rightarrow> if c = CHR ''-'' then - int (unbits r) else int (unbits r))"

definition example_jwt_encode :: "string \<Rightarrow> jwt_payload \<Rightarrow> string" where
  "example_jwt_encode k p =
     print_int (jwt_payload.admin_id p) @ ''.'' @ print_int (exp p) @ ''.'' @ print_int (iat p)"

definition example_jwt_decode :: "string \<Rightarrow> string \<Rightarrow> jwt_payload option" where
  "example_jwt_decode k s =
     (case str_split CHR ''.'' s of
        [a, e, i] \<Rightarrow>
          Some \<lparr>jwt_payload.admin_id = parse_int a, exp = parse_int e, iat = parse_int i\<rparr>
      | _ \<Rightarrow> None)"

definition example_codec_ext :: extern where
  "example_codec_ext =
     example_ext\<lparr>jwt_encode := example_jwt_encode, jwt_decode := example_jwt_decode\<rparr>"

section \<open>Properties\<close>

subsection \<open>Strings and digests\<close>

lemma length_hexdigest: "length (hexdigest (w :: 'a::len word)) = LENGTH('a) div 4"
  by (simp add: hexdigest_def)

lemma hex_digit_in: "hex_digit n \<in> set ''0123456789abcdef''"
proof -
  have "n mod 16 < length ''0123456789abcdef''" by simp
  then show ?thesis unfolding hex_digit_def by (rule nth_mem)
qed

lemma set_hexdigest: "set (hexdigest w) \<subseteq> set ''0123456789abcdef''"
  using hex_digit_in by (auto simp: hexdigest_def)

lemma colon_notin_hexdigest: "CHR '':'' \<notin> set (hexdigest w)"
  using set_hexdigest [of w] by auto

lemma str_split_nonempty: "str_split c s \<noteq> []"
  by (induction s) (auto split: list.splits)

lemma str_split_no_sep: "c \<notin> set s \<Longrightarrow> str_split c s = [s]"
  by (induction s) auto

lemma str_split_append: "c \<notin> set a \<Longrightarrow> str_split c (a @ c # b) = a # str_split c b"
  by (induction a) auto

lemma str_split_two: "c \<notin> set a \<Longrightarrow> c \<notin> set b \<Longrightarrow> str_split c (a @ c # b) = [a, b]"
  by (simp add: str_split_append str_split_no_sep)

lemma length_lower: "length (lower s) = length s"
  by (simp add: lower_def)

lemma verify_password_eq:
  "verify_password ext h pw =
     Inr (case str_split CHR '':'' h of
            [salt, stored] \<Rightarrow> hexdigest (sha256 ext (pw @ salt)) = stored
          | _ \<Rightarrow> False)"
  by (simp add: verify_password_def verify_password_try_def split: list.splits)

lemma verify_hash_password: "verify_password ext (hash_password ext sb pw) pw = Inr True"
  by (simp add: verify_password_eq hash_password_def token_hex16_def Let_def
      str_split_two colon_notin_hexdigest)

text \<open>Claim C7. The identity deriver is a function of its arguments and the digest alone
  (no clock, no random draw and no store is among them, so equal arguments give equal
  output). Its output is the first 32 hexadecimal digits of the SHA-256 digest of
  \<^verbatim>\<open>ip:user_agent\<close>, with \<^verbatim>\<open>:extra\<close> appended when an extra is given; an empty
  extra counts as none, as Python's truthiness has it. The output always has length 32 and
  consists of lower-case hexadecimal digits.\<close>

theorem create_user_identifier_digest:
  "create_user_identifier ext ip ua None
     = take 32 (hexdigest (sha256 ext (ip @ '':'' @ ua)))
   \<and> create_user_identifier ext ip ua (Some (c # cs))
     = take 32 (hexdigest (sha256 ext (ip @ '':'' @ ua @ '':'' @ c # cs)))
   \<and> create_user_identifier ext ip ua (Some []) = create_user_identifier ext ip ua None
   \<and> length (create_user_identifier ext ip ua extra) = 32
   \<and> set (create_user_identifier ext ip ua extra) \<subseteq> set ''0123456789abcdef''"
proof -
  have "set (take 32 (hexdigest w)) \<subseteq> set ''0123456789abcdef''" for w :: "256 word"
    using set_take_subset set_hexdigest by (rule subset_trans)
  then show ?thesis
    by (simp add: create_user_identifier_def identifier_data_def length_hexdigest)
qed

text \<open>Claim C8. Password verification is total and fails closed: for every stored hash and
  every candidate password it returns a boolean and raises nothing; it returns \<open>False\<close>
  whenever the stored hash does not split at \<^verbatim>\<open>:\<close> into exactly two fields; on a
  well-formed \<^verbatim>\<open>salt:hash\<close> it returns whether \<^verbatim>\<open>SHA-256(password + salt)\<close> is
  the stored hash; and a password verifies against its own \<open>hash_password\<close>.\<close>

theorem verify_password_total:
  "(\<exists>b. verify_password ext h pw = Inr b)
   \<and> (length (str_split CHR '':'' h) \<noteq> 2 \<longrightarrow> verify_password ext h pw = Inr False)
   \<and> (CHR '':'' \<notin> set salt \<and> CHR '':'' \<notin> set stored \<longrightarrow>
        verify_password ext (salt @ '':'' @ stored) pw
          = Inr (hexdigest (sha256 ext (pw @ salt)) = stored))
   \<and> verify_password ext (hash_password ext sb pw) pw = Inr True"
proof -
  have a: "\<exists>b. verify_password ext h pw = Inr b"
    by (simp add: verify_password_eq)
  have b: "length (str_split CHR '':'' h) \<noteq> 2 \<longrightarrow> verify_password ext h pw = Inr False"
    by (auto simp: verify_password_eq split: list.splits)
  have c: "CHR '':'' \<notin> set salt \<and> CHR '':'' \<notin> set stored \<longrightarrow>
        verify_password ext (salt @ '':'' @ stored) pw
          = Inr (hexdigest (sha256 ext (pw @ salt)) = stored)"
    by (simp add: verify_password_eq str_split_two)
  from a b c verify_hash_password show ?thesis by blast
qed

theorem verify_password_total_witness:
  "verify_password example_ext ''not-a-hash'' ''admin123'' = Inr False
   \<and> verify_password example_ext ''a:b:c'' ''admin123'' = Inr False
   \<and> verify_password example_ext ''ab:000000000000000000000000000000000000000000000000000000000000000a'' ''admin123'' = Inr True
   \<and> verify_password example_ext ''ab:cd'' ''admin123'' = Inr False"
proof -
  have 1: "length (str_split CHR '':'' ''not-a-hash'') \<noteq> 2" by simp
  have 2: "length (str_split CHR '':'' ''a:b:c'') \<noteq> 2" by simp
  have 3: "CHR '':'' \<notin> set ''ab'' \<and> CHR '':'' \<notin> set ''000000000000000000000000000000000000000000000000000000000000000a''" by simp
  have 4: "CHR '':'' \<notin> set ''ab'' \<and> CHR '':'' \<notin> set ''cd''" by simp
  have h: "hexdigest (sha256 example_ext (''admin123'' @ ''ab'')) = ''000000000000000000000000000000000000000000000000000000000000000a''"
    by code_simp
  show ?thesis
    using 1 2 3 4 h
      verify_password_total [of example_ext "''not-a-hash''" "''admin123''" "''ab''" "''cd''" 0]
      verify_password_total [of example_ext "''a:b:c''" "''admin123''" "''ab''" "''000000000000000000000000000000000000000000000000000000000000000a''" 0]
    by simp
qed

subsection \<open>The vote ledger\<close>

lemma fits_le: "length s \<le> n \<Longrightarrow> fits d n s"
  by (simp add: fits_def)

lemma length_create_user_identifier: "length (create_user_identifier ext ip ua extra) = 32"
  by (simp add: create_user_identifier_def length_hexdigest)

lemma length_create_session_id: "length (create_session_id ext now req) = 32"
  by (simp add: create_session_id_def Let_def length_hexdigest)

lemma lower_char_idem: "lower_char (lower_char c) = lower_char c"
proof -
  define n :: nat where "n = of_char c"
  show ?thesis
  proof (cases "65 \<le> n \<and> n \<le> 90")
    case True
    then have "(of_char (char_of (n + 32)) :: nat) = n + 32"
      by simp
    with True show ?thesis
      by (simp add: lower_char_def Let_def n_def [symmetric])
  next
    case False
    then show ?thesis
      by (auto simp add: lower_char_def Let_def n_def [symmetric])
  qed
qed


lemma lower_idem: "lower (lower s) = lower s"
  by (simp add: lower_def lower_char_idem)

lemma query_vote_None_iff:
  "query_vote d dy ml uid = None \<longleftrightarrow> (dy, ml, uid) \<notin> set (map vote_key (votes d))"
  by (auto simp: query_vote_def find_None_iff vote_key_def)

lemma query_vote_Some:
  "query_vote d dy ml uid = Some v \<Longrightarrow>
     v \<in> set (votes d) \<and> vote.day v = dy \<and> vote.meal v = ml \<and> user_identifier v = uid"
  by (auto simp: query_vote_def find_Some_iff)

lemma query_vote_mem:
  "v \<in> set (votes d) \<Longrightarrow> query_vote d (vote.day v) (vote.meal v) (user_identifier v) \<noteq> None"
  by (auto simp: query_vote_None_iff vote_key_def)


lemma insert_vote_Inr:
  "insert_vote d now dy ml dsh uid ip sid = Inr (v, d') \<Longrightarrow>
     query_vote d dy ml uid = None \<and> d' = d\<lparr>votes := votes d @ [v]\<rparr>
     \<and> v = \<lparr>vote.id = next_id (map vote.id (votes d)), day = dy, meal = ml, dish = dsh,
             user_identifier = uid, ip_address = ip, timestamp = now, session_id = sid\<rparr>"
  by (auto simp: insert_vote_def Let_def split: if_splits)

lemma insert_vote_ok:
  "fits d 20 dy \<Longrightarrow> fits d 20 ml \<Longrightarrow> fits d 100 dsh \<Longrightarrow> fits d 100 uid \<Longrightarrow> fits d 45 ip \<Longrightarrow>
   fits d 100 sid \<Longrightarrow> query_vote d dy ml uid = None \<Longrightarrow>
   insert_vote d now dy ml dsh uid ip sid =
     Inr (\<lparr>vote.id = next_id (map vote.id (votes d)), day = dy, meal = ml, dish = dsh,
             user_identifier = uid, ip_address = ip, timestamp = now, session_id = sid\<rparr>,
          d\<lparr>votes := votes d @
             [\<lparr>vote.id = next_id (map vote.id (votes d)), day = dy, meal = ml, dish = dsh,
               user_identifier = uid, ip_address = ip, timestamp = now, session_id = sid\<rparr>]\<rparr>)"
  by (simp add: insert_vote_def Let_def)

lemma insert_vote_unique:
  "unique_vote d \<Longrightarrow> insert_vote d now dy ml dsh uid ip sid = Inr (v, d') \<Longrightarrow> unique_vote d'"
  by (auto simp: unique_vote_def query_vote_None_iff vote_key_def dest!: insert_vote_Inr)

lemma submit_vote_racing_fields:
  assumes "json req = Some data" "data ''day'' = Some dy" "data ''meal'' = Some ml"
    "data ''dish'' = Some dsh" "dy \<noteq> []" "ml \<noteq> []" "dsh \<noteq> []"
  shows "submit_vote_racing ext now req dq dc =
     (if query_vote dq (lower dy) (lower ml)
            (create_user_identifier ext (get_client_ip req) (get_user_agent req) None) \<noteq> None
      then (Failure 400 DUPLICATE_VOTE, dc)
      else (case insert_vote dc now (lower dy) (lower ml) dsh
                   (create_user_identifier ext (get_client_ip req) (get_user_agent req) None)
                   (get_client_ip req) (create_session_id ext now req) of
              Inl err \<Rightarrow> (Failure 500 INTERNAL_ERROR, dc)
            | Inr (v, d') \<Rightarrow> (Success 201 (vote.id v), d')))"
  using assms by (simp add: submit_vote_racing_def missing_def Let_def)

lemma submit_vote_racing_store:
  "snd (submit_vote_racing ext now req dq dc) = dc \<or>
   (\<exists>dy ml dsh uid ip sid v. insert_vote dc now dy ml dsh uid ip sid
       = Inr (v, snd (submit_vote_racing ext now req dq dc)))"
  by (auto simp: submit_vote_racing_def Let_def split: option.splits sum.splits prod.splits)

lemma submit_vote_racing_unique:
  "unique_vote dc \<Longrightarrow> unique_vote (snd (submit_vote_racing ext now req dq dc))"
  using submit_vote_racing_store [of ext now req dq dc] insert_vote_unique by metis



lemma submit_vote_first:
  assumes "json req = Some data" "data ''day'' = Some dy" "data ''meal'' = Some ml"
    "data ''dish'' = Some dsh" "dy \<noteq> []" "ml \<noteq> []" "dsh \<noteq> []"
    and "length dy \<le> 20" "length ml \<le> 20" "length dsh \<le> 100"
    "length (get_client_ip req) \<le> 45"
    and "query_vote d (lower dy) (lower ml)
           (create_user_identifier ext (get_client_ip req) (get_user_agent req) None) = None"
  shows "submit_vote ext now req d =
     (Success 201 (next_id (map vote.id (votes d))),
      d\<lparr>votes := votes d @
         [\<lparr>vote.id = next_id (map vote.id (votes d)), day = lower dy, meal = lower ml, dish = dsh,
           user_identifier = create_user_identifier ext (get_client_ip req) (get_user_agent req) None,
           ip_address = get_client_ip req, timestamp = now,
           session_id = create_session_id ext now req\<rparr>]\<rparr>)"
  using assms
  by (simp add: submit_vote_def submit_vote_racing_fields insert_vote_ok fits_le length_lower
      length_create_user_identifier length_create_session_id)

lemma submit_vote_duplicate:
  assumes "json req = Some data" "data ''day'' = Some dy" "data ''meal'' = Some ml"
    "data ''dish'' = Some dsh" "dy \<noteq> []" "ml \<noteq> []" "dsh \<noteq> []"
    and "v \<in> set (votes d)" "vote.day v = lower dy" "vote.meal v = lower ml"
    "user_identifier v = create_user_identifier ext (get_client_ip req) (get_user_agent req) None"
  shows "submit_vote ext now req d = (Failure 400 DUPLICATE_VOTE, d)"
proof -
  have "query_vote d (lower dy) (lower ml)
          (create_user_identifier ext (get_client_ip req) (get_user_agent req) None) \<noteq> None"
    using query_vote_mem [OF assms(8)] assms(9-11) by simp
  with assms(1-7) show ?thesis
    by (simp add: submit_vote_def submit_vote_racing_fields)
qed

text \<open>Claim C1. For a request with non-empty day, meal and dish that fit their columns,
  from a client that has no vote yet for that day and meal: \<open>submit_vote\<close> succeeds with
  status 201 and appends exactly one vote \<open>v\<close>, stored under the lower-cased day and meal
  and the identity derived from the client's address and user agent. From then on, in any
  store that holds \<open>v\<close>, every submission with the same day and meal from the same address
  and user agent fails with \<^verbatim>\<open>DUPLICATE_VOTE\<close> and leaves the store as it was,
  whatever its dish. The ledger's invariant (no two votes share day, meal and identity) holds
  after the submission, and after any submission whatever was committed meanwhile, since the
  store's constraint refuses the second row.\<close>

theorem submit_vote_once:
  assumes first: "json req = Some data" "data ''day'' = Some dy" "data ''meal'' = Some ml"
      "data ''dish'' = Some dsh" "dy \<noteq> []" "ml \<noteq> []" "dsh \<noteq> []"
    and lengths: "length dy \<le> 20" "length ml \<le> 20" "length dsh \<le> 100"
      "length (get_client_ip req) \<le> 45"
    and fresh: "query_vote d (lower dy) (lower ml)
           (create_user_identifier ext (get_client_ip req) (get_user_agent req) None) = None"
    and second: "json req' = Some data'" "data' ''day'' = Some dy" "data' ''meal'' = Some ml"
      "data' ''dish'' = Some dsh'" "dsh' \<noteq> []"
      "get_client_ip req' = get_client_ip req" "get_user_agent req' = get_user_agent req"
    and inv: "unique_vote d"
  shows "\<exists>v. submit_vote ext now req d = (Success 201 (vote.id v), d\<lparr>votes := votes d @ [v]\<rparr>)
           \<and> vote.day v = lower dy \<and> vote.meal v = lower ml \<and> dish v = dsh
           \<and> user_identifier v
               = create_user_identifier ext (get_client_ip req) (get_user_agent req) None
           \<and> (\<forall>d2. v \<in> set (votes d2) \<longrightarrow>
                 submit_vote ext now' req' d2 = (Failure 400 DUPLICATE_VOTE, d2))
           \<and> unique_vote (d\<lparr>votes := votes d @ [v]\<rparr>)
           \<and> unique_vote (snd (submit_vote_racing ext t r dq d))"
proof -
  define v where "v =
    \<lparr>vote.id = next_id (map vote.id (votes d)), day = lower dy, meal = lower ml, dish = dsh,
      user_identifier = create_user_identifier ext (get_client_ip req) (get_user_agent req) None,
      ip_address = get_client_ip req, timestamp = now,
      session_id = create_session_id ext now req\<rparr>"
  have s: "submit_vote ext now req d = (Success 201 (vote.id v), d\<lparr>votes := votes d @ [v]\<rparr>)"
    using submit_vote_first [OF first lengths fresh] by (simp add: v_def)
  have dup: "submit_vote ext now' req' d2 = (Failure 400 DUPLICATE_VOTE, d2)"
    if "v \<in> set (votes d2)" for d2
    using submit_vote_duplicate [OF second(1-4) first(5,6) second(5) that]
    by (simp add: v_def second(6,7))
  have u: "unique_vote (d\<lparr>votes := votes d @ [v]\<rparr>)"
    using submit_vote_racing_unique [OF inv, of ext now req d] s by (simp add: submit_vote_def)
  show ?thesis
    using s dup u submit_vote_racing_unique [OF inv] by (intro exI [of _ v]) (simp add: v_def)
qed

theorem submit_vote_once_witness:
  "\<exists>v. submit_vote example_ext 5
          (example_request [(''day'', ''Monday''), (''meal'', ''Lunch''), (''dish'', ''Dal'')] None)
          example_db
        = (Success 201 (vote.id v), example_db\<lparr>votes := votes example_db @ [v]\<rparr>)
      \<and> vote.day v = lower ''Monday'' \<and> vote.meal v = lower ''Lunch'' \<and> dish v = ''Dal''
      \<and> user_identifier v
          = create_user_identifier example_ext
              (get_client_ip (example_request [(''day'', ''Monday''), (''meal'', ''Lunch''), (''dish'', ''Dal'')] None))
              (get_user_agent (example_request [(''day'', ''Monday''), (''meal'', ''Lunch''), (''dish'', ''Dal'')] None)) None
      \<and> (\<forall>d2. v \<in> set (votes d2) \<longrightarrow>
            submit_vote example_ext 9
              (example_request [(''day'', ''Monday''), (''meal'', ''Lunch''), (''dish'', ''Rice'')] None) d2
            = (Failure 400 DUPLICATE_VOTE, d2))
      \<and> unique_vote (example_db\<lparr>votes := votes example_db @ [v]\<rparr>)
      \<and> unique_vote (snd (submit_vote_racing example_ext 7
            (example_request [(''day'', ''Monday''), (''meal'', ''Lunch''), (''dish'', ''Dal'')] None)
            example_db example_db))"
  by (rule submit_vote_once
        [where data = "map_of [(''day'', ''Monday''), (''meal'', ''Lunch''), (''dish'', ''Dal'')]"
           and data' = "map_of [(''day'', ''Monday''), (''meal'', ''Lunch''), (''dish'', ''Rice'')]"
           and dsh' = "''Rice''"])
     (simp_all add: example_request_def example_db_def query_vote_def unique_vote_def
        get_client_ip_def get_user_agent_def)

lemma lower_Monday: "lower ''Monday'' = lower ''monday'' \<and> lower ''LUNCH'' = lower ''Lunch''"
  by code_simp

text \<open>Claim C4. \<open>submit_vote\<close> lower-cases day and meal before its uniqueness query and
  before storage. After a first submission is stored, every later submission from the same
  client whose day and meal differ from the first only in case (their lower-casings agree)
  is rejected with \<^verbatim>\<open>DUPLICATE_VOTE\<close> in any store that still holds the vote; the stored
  vote carries the lower-cased day and meal, which lower-casing leaves unchanged.\<close>

theorem submit_vote_case_insensitive:
  assumes first: "json req = Some data" "data ''day'' = Some dy" "data ''meal'' = Some ml"
      "data ''dish'' = Some dsh" "dy \<noteq> []" "ml \<noteq> []" "dsh \<noteq> []"
    and lengths: "length dy \<le> 20" "length ml \<le> 20" "length dsh \<le> 100"
      "length (get_client_ip req) \<le> 45"
    and fresh: "query_vote d (lower dy) (lower ml)
           (create_user_identifier ext (get_client_ip req) (get_user_agent req) None) = None"
    and second: "json req' = Some data'" "data' ''day'' = Some dy'" "data' ''meal'' = Some ml'"
      "data' ''dish'' = Some dsh'" "dy' \<noteq> []" "ml' \<noteq> []" "dsh' \<noteq> []"
      "get_client_ip req' = get_client_ip req" "get_user_agent req' = get_user_agent req"
    and variant: "lower dy' = lower dy" "lower ml' = lower ml"
  shows "\<exists>v. submit_vote ext now req d = (Success 201 (vote.id v), d\<lparr>votes := votes d @ [v]\<rparr>)
           \<and> vote.day v = lower dy \<and> vote.meal v = lower ml
           \<and> lower (vote.day v) = vote.day v \<and> lower (vote.meal v) = vote.meal v
           \<and> (\<forall>d2. v \<in> set (votes d2) \<longrightarrow>
                 submit_vote ext now' req' d2 = (Failure 400 DUPLICATE_VOTE, d2))"
proof -
  define v where "v =
    \<lparr>vote.id = next_id (map vote.id (votes d)), day = lower dy, meal = lower ml, dish = dsh,
      user_identifier = create_user_identifier ext (get_client_ip req) (get_user_agent req) None,
      ip_address = get_client_ip req, timestamp = now,
      session_id = create_session_id ext now req\<rparr>"
  have s: "submit_vote ext now req d = (Success 201 (vote.id v), d\<lparr>votes := votes d @ [v]\<rparr>)"
    using submit_vote_first [OF first lengths fresh] by (simp add: v_def)
  have dup: "submit_vote ext now' req' d2 = (Failure 400 DUPLICATE_VOTE, d2)"
    if "v \<in> set (votes d2)" for d2
    using submit_vote_duplicate [OF second(1-7) that]
    by (simp add: v_def second(8,9) variant)
  show ?thesis
    using s dup by (intro exI [of _ v]) (simp add: v_def lower_idem)
qed

theorem submit_vote_case_insensitive_witness:
  "\<exists>v. submit_vote example_ext 5
          (example_request [(''day'', ''Monday''), (''meal'', ''Lunch''), (''dish'', ''Dal'')] None)
          example_db
        = (Success 201 (vote.id v), example_db\<lparr>votes := votes example_db @ [v]\<rparr>)
      \<and> vote.day v = lower ''Monday'' \<and> vote.meal v = lower ''Lunch''
      \<and> lower (vote.day v) = vote.day v \<and> lower (vote.meal v) = vote.meal v
      \<and> (\<forall>d2. v \<in> set (votes d2) \<longrightarrow>
            submit_vote example_ext 9
              (example_request [(''day'', ''monday''), (''meal'', ''LUNCH''), (''dish'', ''Rice'')] None) d2
            = (Failure 400 DUPLICATE_VOTE, d2))"
  by (rule submit_vote_case_insensitive
        [where data = "map_of [(''day'', ''Monday''), (''meal'', ''Lunch''), (''dish'', ''Dal'')]"
           and data' = "map_of [(''day'', ''monday''), (''meal'', ''LUNCH''), (''dish'', ''Rice'')]"
           and dsh = "''Dal''" and dsh' = "''Rice''" and dy' = "''monday''" and ml' = "''LUNCH''"])
     (simp_all add: example_request_def example_db_def query_vote_def
        get_client_ip_def get_user_agent_def lower_Monday)

text \<open>Claim C5, as the code has it. When the handler's own query found no vote and the store
  then refuses the insert (a constraint violation after a concurrent insert of the same key,
  or any other error of the store), \<open>submit_vote\<close> catches the failure, rolls back and
  replies \<^verbatim>\<open>INTERNAL_ERROR\<close> with status 500; the store stays as the insert found it and
  the raw error is not in the reply.\<close>

theorem submit_vote_storage_failure:
  assumes "json req = Some data" "data ''day'' = Some dy" "data ''meal'' = Some ml"
      "data ''dish'' = Some dsh" "dy \<noteq> []" "ml \<noteq> []" "dsh \<noteq> []"
    and "query_vote d_query (lower dy) (lower ml)
           (create_user_identifier ext (get_client_ip req) (get_user_agent req) None) = None"
    and "insert_vote d_commit now (lower dy) (lower ml) dsh
           (create_user_identifier ext (get_client_ip req) (get_user_agent req) None)
           (get_client_ip req) (create_session_id ext now req) = Inl err"
  shows "submit_vote_racing ext now req d_query d_commit = (Failure 500 INTERNAL_ERROR, d_commit)"
  using assms by (simp add: submit_vote_racing_fields)

theorem submit_vote_storage_failure_witness:
  "insert_vote example_db 5 (lower ''Wednesday-of-next-week'') (lower ''Lunch'') ''Dal''
      (create_user_identifier example_ext ''10.0.0.1'' ''curl'' None) ''10.0.0.1''
      (create_session_id example_ext 5
         (example_request
            [(''day'', ''Wednesday-of-next-week''), (''meal'', ''Lunch''), (''dish'', ''Dal'')] None))
     = Inl DataError
   \<and> submit_vote_racing example_ext 5
       (example_request
          [(''day'', ''Wednesday-of-next-week''), (''meal'', ''Lunch''), (''dish'', ''Dal'')] None)
       example_db example_db
     = (Failure 500 INTERNAL_ERROR, example_db)"
proof -
  let ?req = "example_request
          [(''day'', ''Wednesday-of-next-week''), (''meal'', ''Lunch''), (''dish'', ''Dal'')] None"
  have ins: "insert_vote example_db 5 (lower ''Wednesday-of-next-week'') (lower ''Lunch'') ''Dal''
      (create_user_identifier example_ext (get_client_ip ?req) (get_user_agent ?req) None)
      (get_client_ip ?req) (create_session_id example_ext 5 ?req) = Inl DataError"
    by (simp add: insert_vote_def fits_def example_db_def length_lower)
  have ip: "get_client_ip ?req = ''10.0.0.1''" "get_user_agent ?req = ''curl''"
    by (simp_all add: example_request_def get_client_ip_def get_user_agent_def)
  have "submit_vote_racing example_ext 5 ?req example_db example_db
          = (Failure 500 INTERNAL_ERROR, example_db)"
    by (rule submit_vote_storage_failure
          [where data = "map_of [(''day'', ''Wednesday-of-next-week''), (''meal'', ''Lunch''),
                                 (''dish'', ''Dal'')]"
             and dy = "''Wednesday-of-next-week''" and ml = "''Lunch''" and dsh = "''Dal''"
             and err = DataError, OF _ _ _ _ _ _ _ _ ins])
       (simp_all add: example_request_def query_vote_def example_db_def)
  with ins ip show ?thesis by simp
qed

text \<open>Claim C5 as stated fails. Two requests of one client race for Monday lunch: both
  queries see the empty table, the other request commits first, and this one's insert hits
  the constraint \<^verbatim>\<open>unique_vote\<close>. The reply is \<^verbatim>\<open>INTERNAL_ERROR\<close>, not
  \<^verbatim>\<open>DUPLICATE_VOTE\<close>.\<close>

theorem submit_vote_storage_failure_counterexample:
  "insert_vote
      (snd (submit_vote example_ext 4
         (example_request [(''day'', ''Monday''), (''meal'', ''Lunch''), (''dish'', ''Rice'')] None)
         example_db))
      5 ''monday'' ''lunch'' ''Dal''
      (create_user_identifier example_ext ''10.0.0.1'' ''curl'' None) ''10.0.0.1''
      (create_session_id example_ext 5
         (example_request [(''day'', ''Monday''), (''meal'', ''Lunch''), (''dish'', ''Dal'')] None))
     = Inl IntegrityError
   \<and> submit_vote_racing example_ext 5
       (example_request [(''day'', ''Monday''), (''meal'', ''Lunch''), (''dish'', ''Dal'')] None)
       example_db
       (snd (submit_vote example_ext 4
          (example_request [(''day'', ''Monday''), (''meal'', ''Lunch''), (''dish'', ''Rice'')] None)
          example_db))
     = (Failure 500 INTERNAL_ERROR,
        snd (submit_vote example_ext 4
          (example_request [(''day'', ''Monday''), (''meal'', ''Lunch''), (''dish'', ''Rice'')] None)
          example_db))
   \<and> fst (submit_vote_racing example_ext 5
       (example_request [(''day'', ''Monday''), (''meal'', ''Lunch''), (''dish'', ''Dal'')] None)
       example_db
       (snd (submit_vote example_ext 4
          (example_request [(''day'', ''Monday''), (''meal'', ''Lunch''), (''dish'', ''Rice'')] None)
          example_db)))
     \<noteq> Failure 400 DUPLICATE_VOTE"
  by code_simp




subsection \<open>The token authority\<close>

lemma fold_delete_session:
  "fold delete_session xs d =
     d\<lparr>admin_sessions :=
         filter (\<lambda>r. admin_session.id r \<notin> admin_session.id ` set xs) (admin_sessions d)\<rparr>"
proof (induction xs arbitrary: d)
  case Nil
  show ?case by simp
next
  case (Cons x xs)
  have "filter (\<lambda>r. admin_session.id r \<notin> admin_session.id ` set xs)
          (filter (\<lambda>r. admin_session.id r \<noteq> admin_session.id x) (admin_sessions d))
        = filter (\<lambda>r. admin_session.id r \<notin> admin_session.id ` set (x # xs)) (admin_sessions d)"
    by (auto intro: filter_cong)
  then have "(delete_session x d)\<lparr>admin_sessions :=
           filter (\<lambda>r. admin_session.id r \<notin> admin_session.id ` set xs)
             (admin_sessions (delete_session x d))\<rparr>
         = d\<lparr>admin_sessions :=
             filter (\<lambda>r. admin_session.id r \<notin> admin_session.id ` set (x # xs))
               (admin_sessions d)\<rparr>"
    by (simp add: delete_session_def)
  moreover have "fold delete_session (x # xs) d = fold delete_session xs (delete_session x d)"
    by simp
  ultimately show ?case
    by (simp only: Cons.IH)
qed

lemma cleanup_expired_sessions_store:
  "snd (cleanup_expired_sessions now d) =
     d\<lparr>admin_sessions :=
         filter (\<lambda>r. admin_session.id r \<notin>
                    admin_session.id ` {s \<in> set (admin_sessions d). expires_at s < now})
           (admin_sessions d)\<rparr>"
  by (simp add: cleanup_expired_sessions_def Let_def fold_delete_session)

lemma cleanup_expired_sessions_admin_users [simp]:
  "admin_users (snd (cleanup_expired_sessions now d)) = admin_users d"
  by (simp add: cleanup_expired_sessions_store)

lemma cleanup_expired_sessions_none_expired:
  "s \<in> set (admin_sessions (snd (cleanup_expired_sessions now d))) \<Longrightarrow> now \<le> expires_at s"
  by (auto simp: cleanup_expired_sessions_store)

lemma cleanup_expired_sessions_distinct:
  assumes "distinct (map admin_session.id (admin_sessions d))"
  shows "snd (cleanup_expired_sessions now d) =
     d\<lparr>admin_sessions := filter (\<lambda>s. now \<le> expires_at s) (admin_sessions d)\<rparr>"
proof -
  have "admin_session.id r \<notin> admin_session.id ` {s \<in> set (admin_sessions d). expires_at s < now}
          \<longleftrightarrow> now \<le> expires_at r" if "r \<in> set (admin_sessions d)" for r
  proof -
    have "s = r" if "s \<in> set (admin_sessions d)" "admin_session.id s = admin_session.id r" for s
      using assms that \<open>r \<in> set (admin_sessions d)\<close> by (simp add: distinct_map inj_on_def)
    then show ?thesis using that by auto
  qed
  then have "filter (\<lambda>r. admin_session.id r \<notin>
                    admin_session.id ` {s \<in> set (admin_sessions d). expires_at s < now})
               (admin_sessions d)
             = filter (\<lambda>s. now \<le> expires_at s) (admin_sessions d)"
    by (intro filter_cong) auto
  then show ?thesis by (simp add: cleanup_expired_sessions_store)
qed

text \<open>Claim C10. In every store whose session rows have distinct primary keys, at every
  clock value, \<open>cleanup_expired_sessions\<close> deletes exactly the session rows whose
  \<^verbatim>\<open>expires_at\<close> is strictly before \<open>now\<close>: the rows left are those with
  \<open>now \<le> expires_at\<close>, in their order; the number returned is the number of rows deleted;
  and the rows of every other table are unchanged.\<close>

theorem cleanup_expired_sessions_exact:
  assumes "distinct (map admin_session.id (admin_sessions d))"
  shows "cleanup_expired_sessions now d =
           (length (filter (\<lambda>s. expires_at s < now) (admin_sessions d)),
            d\<lparr>admin_sessions := filter (\<lambda>s. now \<le> expires_at s) (admin_sessions d)\<rparr>)
    \<and> set (admin_sessions (snd (cleanup_expired_sessions now d)))
         = {s \<in> set (admin_sessions d). now \<le> expires_at s}
    \<and> fst (cleanup_expired_sessions now d)
         = length (admin_sessions d) - length (admin_sessions (snd (cleanup_expired_sessions now d)))
    \<and> votes (snd (cleanup_expired_sessions now d)) = votes d
    \<and> feedbacks (snd (cleanup_expired_sessions now d)) = feedbacks d
    \<and> complaints (snd (cleanup_expired_sessions now d)) = complaints d
    \<and> menu_suggestions (snd (cleanup_expired_sessions now d)) = menu_suggestions d
    \<and> menu_pdfs (snd (cleanup_expired_sessions now d)) = menu_pdfs d
    \<and> admin_users (snd (cleanup_expired_sessions now d)) = admin_users d"
proof -
  have n: "fst (cleanup_expired_sessions now d)
             = length (filter (\<lambda>s. expires_at s < now) (admin_sessions d))"
    by (simp add: cleanup_expired_sessions_def Let_def)
  have "length (admin_sessions d)
          = length (filter (\<lambda>s. expires_at s < now) (admin_sessions d))
            + length (filter (\<lambda>s. now \<le> expires_at s) (admin_sessions d))"
    using sum_length_filter_compl [of "\<lambda>s. expires_at s < now" "admin_sessions d"]
    by (simp add: not_less)
  with n show ?thesis
    by (simp add: cleanup_expired_sessions_distinct [OF assms] prod_eq_iff)
qed

theorem cleanup_expired_sessions_exact_witness:
  "cleanup_expired_sessions 200
     (example_db\<lparr>admin_sessions :=
        [\<lparr>admin_session.id = 1, admin_id = 1, token = ''tok'', created_at = 0,
          expires_at = 100, ip_address = ''10.0.0.1''\<rparr>,
         \<lparr>admin_session.id = 2, admin_id = 1, token = ''tok2'', created_at = 0,
          expires_at = 200, ip_address = ''10.0.0.1''\<rparr>,
         \<lparr>admin_session.id = 3, admin_id = 1, token = ''tok3'', created_at = 0,
          expires_at = 300, ip_address = ''10.0.0.1''\<rparr>]\<rparr>)
   = (1, example_db\<lparr>admin_sessions :=
        [\<lparr>admin_session.id = 2, admin_id = 1, token = ''tok2'', created_at = 0,
          expires_at = 200, ip_address = ''10.0.0.1''\<rparr>,
         \<lparr>admin_session.id = 3, admin_id = 1, token = ''tok3'', created_at = 0,
          expires_at = 300, ip_address = ''10.0.0.1''\<rparr>]\<rparr>)"
  using cleanup_expired_sessions_exact
    [of "example_db\<lparr>admin_sessions :=
        [\<lparr>admin_session.id = 1, admin_id = 1, token = ''tok'', created_at = 0,
          expires_at = 100, ip_address = ''10.0.0.1''\<rparr>,
         \<lparr>admin_session.id = 2, admin_id = 1, token = ''tok2'', created_at = 0,
          expires_at = 200, ip_address = ''10.0.0.1''\<rparr>,
         \<lparr>admin_session.id = 3, admin_id = 1, token = ''tok3'', created_at = 0,
          expires_at = 300, ip_address = ''10.0.0.1''\<rparr>]\<rparr>" 200]
  by simp

lemma require_admin_auth_store:
  "snd (require_admin_auth ext now req d) = snd (cleanup_expired_sessions now d)"
  by (simp add: require_admin_auth_def Let_def split: option.splits list.splits)

lemma verify_jwt_token_Some:
  "verify_jwt_token ext now tok = Some aid \<longleftrightarrow>
     (\<exists>p. jwt_decode ext (jwt_secret_key ext) tok = Some p \<and> now < exp p * 1000000
          \<and> jwt_payload.admin_id p = aid)"
  by (auto simp: verify_jwt_token_def split: option.splits)

lemma require_admin_auth_Inr:
  assumes "fst (require_admin_auth ext now req d) = Inr a"
  shows "\<exists>hdr x tok rest p. authorization req = Some hdr \<and> hdr \<noteq> []
           \<and> startswith hdr ''Bearer '' \<and> str_split CHR '' '' hdr = x # tok # rest
           \<and> jwt_decode ext (jwt_secret_key ext) tok = Some p \<and> now < exp p * 1000000
           \<and> jwt_payload.admin_id p \<noteq> 0 \<and> get_admin d (jwt_payload.admin_id p) = Some a
           \<and> is_active a"
  using assms
  by (auto simp: require_admin_auth_def Let_def get_admin_def verify_jwt_token_Some
      split: option.splits list.splits if_splits)

lemma require_admin_auth_accept:
  assumes "authorization req = Some hdr" "hdr \<noteq> []" "startswith hdr ''Bearer ''"
    "str_split CHR '' '' hdr = x # tok # rest"
    "jwt_decode ext (jwt_secret_key ext) tok = Some p" "now < exp p * 1000000"
    "jwt_payload.admin_id p \<noteq> 0" "get_admin d (jwt_payload.admin_id p) = Some a" "is_active a"
  shows "fst (require_admin_auth ext now req d) = Inr a"
  using assms
  by (simp add: require_admin_auth_def Let_def get_admin_def verify_jwt_token_def)

lemma require_admin_auth_expired:
  assumes "authorization req = Some hdr" "str_split CHR '' '' hdr = x # tok # rest"
    "jwt_decode ext (jwt_secret_key ext) tok = Some p" "exp p * 1000000 \<le> now"
    "hdr \<noteq> []" "startswith hdr ''Bearer ''"
  shows "fst (require_admin_auth ext now req d) = Inl (401, INVALID_TOKEN)"
  using assms
  by (simp add: require_admin_auth_def Let_def verify_jwt_token_def)

lemma find_map_update:
  "find (\<lambda>r. admin_user.id r = i) xs = Some a \<Longrightarrow> admin_user.id a' = i \<Longrightarrow>
     find (\<lambda>r. admin_user.id r = i) (map (\<lambda>r. if admin_user.id r = i then a' else r) xs)
       = Some a'"
  by (induction xs) (auto split: if_splits)

lemma get_admin_id: "get_admin d i = Some a \<Longrightarrow> admin_user.id a = i"
  by (auto simp: get_admin_def find_Some_iff)

lemma get_admin_update:
  assumes "get_admin d i = Some a" "admin_user.id a' = admin_user.id a"
  shows "get_admin (delete_sessions_of (update_admin d a') j) i = Some a'"
proof -
  have i: "admin_user.id a' = i"
    using get_admin_id [OF assms(1)] assms(2) by simp
  have "find (\<lambda>r. admin_user.id r = i)
          (map (\<lambda>r. if admin_user.id r = i then a' else r) (admin_users d)) = Some a'"
    using assms(1) i by (intro find_map_update) (simp_all add: get_admin_def)
  then show ?thesis
    by (simp add: get_admin_def update_admin_def delete_sessions_of_def i)
qed

lemma change_password_success:
  assumes "change_password ext now sb req d = (Success st u, d')"
  shows "\<exists>admin data cur new.
           fst (require_admin_auth ext now req d) = Inr admin
         \<and> json req = Some data \<and> data ''current_password'' = Some cur
         \<and> data ''new_password'' = Some new
         \<and> verify_password ext (password_hash admin) cur = Inr True \<and> 6 \<le> length new
         \<and> d' = delete_sessions_of
                  (update_admin (snd (cleanup_expired_sessions now d))
                     (admin\<lparr>password_hash := hash_password ext sb new\<rparr>))
                  (admin_user.id admin)"
proof (cases "require_admin_auth ext now req d")
  case (Pair r d1)
  then have d1: "d1 = snd (cleanup_expired_sessions now d)"
    using require_admin_auth_store [of ext now req d] by simp
  show ?thesis
  proof (cases r)
    case (Inl e)
    with Pair assms show ?thesis
      by (simp add: change_password_def split: prod.splits)
  next
    case (Inr admin)
    with Pair assms d1 show ?thesis
      by (auto simp: change_password_def Let_def
          split: option.splits sum.splits bool.splits if_splits)
  qed
qed

lemma delete_sessions_of_none:
  "filter (\<lambda>s. admin_session.admin_id s = i) (admin_sessions (delete_sessions_of d i)) = []"
  by (simp add: delete_sessions_of_def)

text \<open>Claim C2 demands that after a successful \<open>change_password\<close> no token issued to
  the principal before the change is accepted again. The code deletes every session row of
  the principal, but \<open>require_admin_auth\<close> never reads the session table: it accepts
  a token on its signature, its \<^verbatim>\<open>exp\<close> claim and the principal being active. So the
  token that authorised the password change is still accepted, at every instant before its
  own expiry, in a store that holds no session of the principal.\<close>

theorem change_password_old_token_accepted:
  assumes "change_password ext now salt_bytes req d = (Success 200 (), d')"
    and "authorization req = Some hdr" "str_split CHR '' '' hdr = x # tok # rest"
    and "jwt_decode ext (jwt_secret_key ext) tok = Some p"
    and "now' < exp p * 1000000"
    and "authorization req' = authorization req"
  shows "\<exists>admin. fst (require_admin_auth ext now' req' d') = Inr admin
           \<and> admin_user.id admin = jwt_payload.admin_id p
           \<and> filter (\<lambda>s. admin_session.admin_id s = admin_user.id admin) (admin_sessions d') = []"
proof -
  from change_password_success [OF assms(1)] obtain admin new where
    a: "fst (require_admin_auth ext now req d) = Inr admin"
    and d': "d' = delete_sessions_of
                  (update_admin (snd (cleanup_expired_sessions now d))
                     (admin\<lparr>password_hash := hash_password ext salt_bytes new\<rparr>))
                  (admin_user.id admin)"
    by blast
  let ?admin' = "admin\<lparr>password_hash := hash_password ext salt_bytes new\<rparr>"
  from require_admin_auth_Inr [OF a] assms(2-4)
  have h: "hdr \<noteq> []" "startswith hdr ''Bearer ''" "jwt_payload.admin_id p \<noteq> 0"
    and g: "get_admin d (jwt_payload.admin_id p) = Some admin" and act: "is_active admin"
    by auto
  have "get_admin (snd (cleanup_expired_sessions now d)) (jwt_payload.admin_id p) = Some admin"
    using g by (simp add: get_admin_def)
  then have "get_admin d' (jwt_payload.admin_id p) = Some ?admin'"
    unfolding d' by (rule get_admin_update) simp
  moreover have "authorization req' = Some hdr"
    using assms(2,6) by simp
  ultimately have "fst (require_admin_auth ext now' req' d') = Inr ?admin'"
    using h assms(3-5) act by (intro require_admin_auth_accept) simp_all
  moreover have "admin_user.id ?admin' = jwt_payload.admin_id p"
    using get_admin_id [OF g] by simp
  moreover have "filter (\<lambda>s. admin_session.admin_id s = admin_user.id ?admin') (admin_sessions d') = []"
    unfolding d' by (simp add: delete_sessions_of_none)
  ultimately show ?thesis by blast
qed

theorem change_password_old_token_accepted_witness:
  "change_password example_ext 10000000 7
     (example_request [(''current_password'', ''admin123''), (''new_password'', ''secret1'')]
        (Some ''Bearer tok''))
     (snd (admin_login example_ext 0 ''r''
        (example_request [(''username'', ''admin''), (''password'', ''admin123'')] None)
        example_db))
   = (Success 200 (),
      example_db\<lparr>admin_users :=
        [example_admin\<lparr>last_login := Some 0,
           password_hash := hash_password example_ext 7 ''secret1''\<rparr>]\<rparr>)
   \<and> (\<exists>admin. fst (require_admin_auth example_ext 20000000
                    (example_request [] (Some ''Bearer tok''))
                    (example_db\<lparr>admin_users :=
                       [example_admin\<lparr>last_login := Some 0,
                          password_hash := hash_password example_ext 7 ''secret1''\<rparr>]\<rparr>))
                = Inr admin
         \<and> admin_user.id admin = 1
         \<and> filter (\<lambda>s. admin_session.admin_id s = admin_user.id admin)
              (admin_sessions (example_db\<lparr>admin_users :=
                       [example_admin\<lparr>last_login := Some 0,
                          password_hash := hash_password example_ext 7 ''secret1''\<rparr>]\<rparr>)) = [])"
proof -
  let ?creq = "example_request
        [(''current_password'', ''admin123''), (''new_password'', ''secret1'')] (Some ''Bearer tok'')"
  let ?d1 = "snd (admin_login example_ext 0 ''r''
        (example_request [(''username'', ''admin''), (''password'', ''admin123'')] None) example_db)"
  let ?d2 = "example_db\<lparr>admin_users :=
        [example_admin\<lparr>last_login := Some 0,
           password_hash := hash_password example_ext 7 ''secret1''\<rparr>]\<rparr>"
  let ?p = "\<lparr>jwt_payload.admin_id = 1, exp = 3600, iat = 0\<rparr>"
  have cp: "change_password example_ext 10000000 7 ?creq ?d1 = (Success 200 (), ?d2)"
    by code_simp
  have h: "authorization ?creq = Some ''Bearer tok''"
    "authorization (example_request [] (Some ''Bearer tok'')) = authorization ?creq"
    by (simp_all add: example_request_def)
  have s: "str_split CHR '' '' ''Bearer tok'' = [''Bearer'', ''tok'']"
    by simp
  have j: "jwt_decode example_ext (jwt_secret_key example_ext) ''tok'' = Some ?p"
    by (simp add: example_ext_def)
  have e: "(20000000 :: int) < exp ?p * 1000000"
    by simp
  from change_password_old_token_accepted [OF cp h(1) s j e h(2)] cp show ?thesis
    by simp
qed

lemma admin_login_failure_store:
  "admin_login ext now rt req d = (Failure st code, d') \<Longrightarrow> d' = d"
  by (auto simp: admin_login_def Let_def
      split: option.splits sum.splits bool.splits if_splits)

lemma admin_login_success:
  assumes "admin_login ext now rt req d = (Success st (tok, ex, aid, nm, em), d')"
  shows "tok = generate_jwt_token ext now aid
       \<and> admin_sessions d' = admin_sessions d @
           [\<lparr>admin_session.id = next_id (map admin_session.id (admin_sessions d)),
             admin_id = aid, token = tok, created_at = now, expires_at = now + hours 1,
             ip_address = get_client_ip req\<rparr>]"
  using assms
  by (auto simp: admin_login_def Let_def insert_session_def create_session_def update_admin_def
      split: option.splits sum.splits bool.splits if_splits)

text \<open>Claim C6. A login with a username no principal has, or with a password that does
  not verify, fails with \<^verbatim>\<open>INVALID_CREDENTIALS\<close>; a login of an existing principal whose
  password verifies and who is inactive fails with \<^verbatim>\<open>ACCOUNT_DISABLED\<close>. Each of them,
  and every other failing login, leaves the store as it was: no session row, no change of
  \<^verbatim>\<open>last_login\<close>; a failure reply carries no token.\<close>

theorem admin_login_failures:
  assumes "json req = Some data" "data ''username'' = Some name"
    "data ''password'' = Some password"
  shows "(find_admin d name = None
            \<longrightarrow> admin_login ext now rt req d = (Failure 401 INVALID_CREDENTIALS, d))
    \<and> (find_admin d name = Some admin
         \<and> verify_password ext (password_hash admin) password = Inr False
            \<longrightarrow> admin_login ext now rt req d = (Failure 401 INVALID_CREDENTIALS, d))
    \<and> (find_admin d name = Some admin
         \<and> verify_password ext (password_hash admin) password = Inr True \<and> \<not> is_active admin
            \<longrightarrow> admin_login ext now rt req d = (Failure 401 ACCOUNT_DISABLED, d))
    \<and> (admin_login ext now' rt' req' d0 = (Failure st code, d1) \<longrightarrow> d1 = d0)"
  using assms admin_login_failure_store [of ext now' rt' req' d0 st code d1]
  by (simp add: admin_login_def)

theorem admin_login_failures_witness:
  "admin_login example_ext 5 ''r''
     (example_request [(''username'', ''bob''), (''password'', ''admin123'')] None) example_db
     = (Failure 401 INVALID_CREDENTIALS, example_db)
   \<and> admin_login example_ext 5 ''r''
     (example_request [(''username'', ''admin''), (''password'', ''letmein'')] None) example_db
     = (Failure 401 INVALID_CREDENTIALS, example_db)
   \<and> admin_login example_ext 5 ''r''
     (example_request [(''username'', ''admin''), (''password'', ''admin123'')] None)
     (example_db\<lparr>admin_users := [example_admin\<lparr>is_active := False\<rparr>]\<rparr>)
     = (Failure 401 ACCOUNT_DISABLED,
        example_db\<lparr>admin_users := [example_admin\<lparr>is_active := False\<rparr>]\<rparr>)"
proof -
  let ?bob = "example_request [(''username'', ''bob''), (''password'', ''admin123'')] None"
  let ?bad = "example_request [(''username'', ''admin''), (''password'', ''letmein'')] None"
  let ?good = "example_request [(''username'', ''admin''), (''password'', ''admin123'')] None"
  let ?off = "example_db\<lparr>admin_users := [example_admin\<lparr>is_active := False\<rparr>]\<rparr>"
  have f1: "find_admin example_db ''bob'' = None"
    by (simp add: find_admin_def example_db_def example_admin_def)
  have f2: "find_admin example_db ''admin'' = Some example_admin"
    by (simp add: find_admin_def example_db_def example_admin_def)
  have f3: "find_admin ?off ''admin'' = Some (example_admin\<lparr>is_active := False\<rparr>)"
    by (simp add: find_admin_def example_db_def example_admin_def)
  have v2: "verify_password example_ext (password_hash example_admin) ''letmein'' = Inr False"
    by code_simp
  have v3: "verify_password example_ext
              (password_hash (example_admin\<lparr>is_active := False\<rparr>)) ''admin123'' = Inr True"
    by (simp add: example_admin_def verify_hash_password)
  have "admin_login example_ext 5 ''r'' ?bob example_db
          = (Failure 401 INVALID_CREDENTIALS, example_db)"
    using f1 admin_login_failures
      [where req = ?bob and data = "map_of [(''username'', ''bob''), (''password'', ''admin123'')]"
         and name = "''bob''" and password = "''admin123''" and d = example_db
         and ext = example_ext and now = 5 and rt = "''r''"]
    by (simp add: example_request_def)
  moreover have "admin_login example_ext 5 ''r'' ?bad example_db
          = (Failure 401 INVALID_CREDENTIALS, example_db)"
    using f2 v2 admin_login_failures
      [where req = ?bad and data = "map_of [(''username'', ''admin''), (''password'', ''letmein'')]"
         and name = "''admin''" and password = "''letmein''" and d = example_db
         and admin = example_admin and ext = example_ext and now = 5 and rt = "''r''"]
    by (simp add: example_request_def)
  moreover have "admin_login example_ext 5 ''r'' ?good ?off = (Failure 401 ACCOUNT_DISABLED, ?off)"
    using f3 v3 admin_login_failures
      [where req = ?good
         and data = "map_of [(''username'', ''admin''), (''password'', ''admin123'')]"
         and name = "''admin''" and password = "''admin123''" and d = ?off
         and admin = "example_admin\<lparr>is_active := False\<rparr>" and ext = example_ext and now = 5
         and rt = "''r''"]
    by (simp add: example_request_def)
  ultimately show ?thesis by simp
qed

text \<open>The stand-in codec round-trips and prints no space.\<close>

lemma unbits_snoc: "unbits (s @ [c]) = 2 * unbits s + (if c = CHR ''1'' then 1 else 0)"
  by (simp add: unbits_def)

lemma unbits_bits: "unbits (bits n) = n"
proof (induction n rule: bits.induct)
  case (1 n)
  show ?case
  proof (cases "n = 0")
    case True
    then show ?thesis by (subst bits.simps) (simp add: unbits_def)
  next
    case False
    have "unbits (bits n) = 2 * unbits (bits (n div 2)) + (if even n then 0 else 1)"
      using False by (subst bits.simps) (simp add: unbits_snoc)
    also have "\<dots> = 2 * (n div 2) + (if even n then 0 else 1)"
      using "1.IH" [OF False] by simp
    also have "\<dots> = n"
      by presburger
    finally show ?thesis .
  qed
qed

lemma set_bits: "set (bits n) \<subseteq> {CHR ''0'', CHR ''1''}"
proof (induction n rule: bits.induct)
  case (1 n)
  show ?case
  proof (cases "n = 0")
    case True
    then show ?thesis by (subst bits.simps) simp
  next
    case False
    with "1.IH" show ?thesis by (subst bits.simps) auto
  qed
qed

lemma parse_print_int: "parse_int (print_int i) = i"
  by (simp add: parse_int_def print_int_def unbits_bits)

lemma set_print_int: "set (print_int i) \<subseteq> {CHR ''-'', CHR ''+'', CHR ''0'', CHR ''1''}"
  using set_bits by (auto simp: print_int_def)

lemma print_int_no_dot: "CHR ''.'' \<notin> set (print_int i)"
  using set_print_int [of i] by auto

lemma print_int_no_space: "CHR '' '' \<notin> set (print_int i)"
  using set_print_int [of i] by auto

lemma example_jwt_roundtrip: "example_jwt_decode k (example_jwt_encode k p) = Some p"
proof -
  have "str_split CHR ''.'' (example_jwt_encode k p)
          = [print_int (jwt_payload.admin_id p), print_int (exp p), print_int (iat p)]"
    by (simp add: example_jwt_encode_def str_split_append str_split_no_sep print_int_no_dot)
  then show ?thesis
    by (simp add: example_jwt_decode_def parse_print_int)
qed

lemma example_jwt_no_space: "CHR '' '' \<notin> set (example_jwt_encode k p)"
  by (simp add: example_jwt_encode_def print_int_no_space)

lemma verify_token_store: "snd (verify_token ext now req d) = d"
  by (simp add: verify_token_def split: option.splits list.splits)

lemma verify_token_expired:
  assumes "authorization req = Some hdr" "str_split CHR '' '' hdr = x # tok # rest"
    "jwt_decode ext (jwt_secret_key ext) tok = Some p" "exp p * 1000000 \<le> now"
    "hdr \<noteq> []" "startswith hdr ''Bearer ''"
  shows "verify_token ext now req d = (Success 200 Token_invalid, d)"
  using assms
  by (simp add: verify_token_def verify_jwt_token_def)

text \<open>Claim C3, as the code has it. Every call of the guard \<open>require_admin_auth\<close>,
  whatever the request and the outcome, first sweeps: it leaves the store with exactly the
  session rows whose \<^verbatim>\<open>expires_at\<close> has not passed (rows with distinct primary keys
  assumed). The route \<open>verify_token\<close> validates a token without a sweep and leaves
  every store as it is. A login creates a session row for its token that expires one hour
  after the login; once that time has passed, the token is never treated as valid: the
  guard rejects it with \<^verbatim>\<open>INVALID_TOKEN\<close> and \<open>verify_token\<close> reports it invalid,
  and both do so in every store, whether it still holds the expired row or no row at all
  for the token. The token is the one \<open>generate_jwt_token\<close> issued; of the codec it is
  assumed that decoding an encoded payload gives the payload back and that a token has no
  space.\<close>

theorem expired_token_rejected:
  assumes login: "admin_login ext t0 rt lreq d0 = (Success 200 (tok, ex, aid, nm, em), d1)"
    and roundtrip: "\<And>p. jwt_decode ext (jwt_secret_key ext)
                         (jwt_encode ext (jwt_secret_key ext) p) = Some p"
    and nospace: "\<And>p. CHR '' '' \<notin> set (jwt_encode ext (jwt_secret_key ext) p)"
    and hdr: "authorization req = Some (''Bearer '' @ tok)"
    and expired: "t0 + hours 1 < now"
    and pk: "distinct (map admin_session.id (admin_sessions d))"
  shows "(\<exists>s \<in> set (admin_sessions d1). token s = tok \<and> expires_at s = t0 + hours 1
            \<and> admin_session.admin_id s = aid)
    \<and> require_admin_auth ext now req d =
         (Inl (401, INVALID_TOKEN),
          d\<lparr>admin_sessions := filter (\<lambda>s. now \<le> expires_at s) (admin_sessions d)\<rparr>)
    \<and> snd (require_admin_auth ext now' req' d) =
         d\<lparr>admin_sessions := filter (\<lambda>s. now' \<le> expires_at s) (admin_sessions d)\<rparr>
    \<and> fst (require_admin_auth ext now req dx) = Inl (401, INVALID_TOKEN)
    \<and> verify_token ext now req dx = (Success 200 Token_invalid, dx)
    \<and> snd (verify_token ext now' req' dx) = dx"
proof -
  let ?p = "\<lparr>jwt_payload.admin_id = aid, exp = epoch_seconds (t0 + hours 1),
             iat = epoch_seconds t0\<rparr>"
  have tok: "tok = jwt_encode ext (jwt_secret_key ext) ?p"
    using admin_login_success [OF login]
    by (simp add: generate_jwt_token_def JWT_EXPIRATION_HOURS_def)
  have codec: "jwt_decode ext (jwt_secret_key ext) tok = Some ?p"
    unfolding tok by (rule roundtrip)
  have a: "\<exists>s \<in> set (admin_sessions d1). token s = tok \<and> expires_at s = t0 + hours 1
            \<and> admin_session.admin_id s = aid"
    using admin_login_success [OF login] by simp
  have "CHR '' '' \<notin> set tok"
    unfolding tok by (rule nospace)
  then have sp: "str_split CHR '' '' (''Bearer '' @ tok) = [''Bearer'', tok]"
    using str_split_two [of "CHR '' ''" "''Bearer''" tok] by simp
  have e: "exp ?p * 1000000 \<le> now"
    using expired by (simp add: epoch_seconds_def)
  have r: "fst (require_admin_auth ext now req d') = Inl (401, INVALID_TOKEN)" for d'
    by (rule require_admin_auth_expired [OF hdr sp codec e]) (simp_all add: startswith_def)
  have v: "verify_token ext now req dx = (Success 200 Token_invalid, dx)"
    by (rule verify_token_expired [OF hdr sp codec e]) (simp_all add: startswith_def)
  have s: "snd (require_admin_auth ext t r d) =
         d\<lparr>admin_sessions := filter (\<lambda>s. t \<le> expires_at s) (admin_sessions d)\<rparr>" for t r
    by (simp add: require_admin_auth_store cleanup_expired_sessions_distinct [OF pk])
  from a r s v verify_token_store show ?thesis
    by (simp add: prod_eq_iff)
qed

lemma example_token: "generate_jwt_token example_codec_ext 0 1 = ''+1.+111000010000.+''"
  by (simp add: generate_jwt_token_def example_codec_ext_def example_ext_def
      example_jwt_encode_def print_int_def epoch_seconds_def hours_def JWT_EXPIRATION_HOURS_def
      bits.simps)

lemma verify_password_example_codec:
  "verify_password example_codec_ext h pw = verify_password example_ext h pw"
proof -
  have "sha256 example_codec_ext = sha256 example_ext"
    by (simp add: example_codec_ext_def)
  then show ?thesis
    by (simp add: verify_password_eq split: list.splits)
qed

lemma example_codec_login:
  "admin_login example_codec_ext 0 ''r''
     (example_request [(''username'', ''admin''), (''password'', ''admin123'')] None) example_db
   = (Success 200 (generate_jwt_token example_codec_ext 0 1, 3600, 1, ''admin'',
                   Some ''admin@mess.portal''),
      example_db\<lparr>admin_users := [example_admin\<lparr>last_login := Some 0\<rparr>],
        admin_sessions :=
          [\<lparr>admin_session.id = 1, admin_id = 1,
            token = generate_jwt_token example_codec_ext 0 1, created_at = 0,
            expires_at = 3600000000, ip_address = ''10.0.0.1''\<rparr>]\<rparr>)"
proof -
  have f: "find_admin example_db ''admin'' = Some example_admin"
    by (simp add: find_admin_def example_db_def example_admin_def)
  have v: "verify_password example_codec_ext (password_hash example_admin) ''admin123'' = Inr True"
    by (simp add: verify_password_example_codec example_admin_def verify_hash_password)
  have a: "is_active example_admin" "admin_user.id example_admin = 1"
    "username example_admin = ''admin''" "email example_admin = Some ''admin@mess.portal''"
    by (simp_all add: example_admin_def)
  have d: "strict_varchar example_db" "admin_sessions example_db = []"
    "admin_users example_db = [example_admin]"
    by (simp_all add: example_db_def)
  show ?thesis
    by (simp add: admin_login_def f v a d example_token example_request_def get_client_ip_def
        create_session_def insert_session_def update_admin_def fits_def next_id_def hours_def
        JWT_EXPIRATION_HOURS_def Let_def)
qed

theorem expired_token_rejected_witness:
  "require_admin_auth example_codec_ext 3600000001
     (example_request [] (Some (''Bearer '' @ generate_jwt_token example_codec_ext 0 1)))
     (example_db\<lparr>admin_users := [example_admin\<lparr>last_login := Some 0\<rparr>],
        admin_sessions :=
          [\<lparr>admin_session.id = 1, admin_id = 1,
            token = generate_jwt_token example_codec_ext 0 1, created_at = 0,
            expires_at = 3600000000, ip_address = ''10.0.0.1''\<rparr>]\<rparr>)
   = (Inl (401, INVALID_TOKEN),
      example_db\<lparr>admin_users := [example_admin\<lparr>last_login := Some 0\<rparr>],
        admin_sessions := []\<rparr>)
   \<and> verify_token example_codec_ext 3600000001
     (example_request [] (Some (''Bearer '' @ generate_jwt_token example_codec_ext 0 1)))
     example_db
   = (Success 200 Token_invalid, example_db)"
proof -
  let ?tok = "generate_jwt_token example_codec_ext 0 1"
  let ?d1 = "example_db\<lparr>admin_users := [example_admin\<lparr>last_login := Some 0\<rparr>],
        admin_sessions :=
          [\<lparr>admin_session.id = 1, admin_id = 1, token = ?tok, created_at = 0,
            expires_at = 3600000000, ip_address = ''10.0.0.1''\<rparr>]\<rparr>"
  have rt: "jwt_decode example_codec_ext (jwt_secret_key example_codec_ext)
              (jwt_encode example_codec_ext (jwt_secret_key example_codec_ext) p) = Some p" for p
    by (simp add: example_codec_ext_def example_jwt_roundtrip)
  have ns: "CHR '' '' \<notin> set (jwt_encode example_codec_ext (jwt_secret_key example_codec_ext) p)"
    for p
    by (simp add: example_codec_ext_def example_jwt_no_space)
  have h: "authorization (example_request [] (Some (''Bearer '' @ ?tok)))
             = Some (''Bearer '' @ ?tok)"
    by (simp add: example_request_def)
  have e: "0 + hours 1 < 3600000001"
    by (simp add: hours_def)
  have p: "distinct (map admin_session.id (admin_sessions ?d1))"
    by simp
  from expired_token_rejected
         [where now' = 0 and req' = "example_request [] None" and dx = example_db,
          OF example_codec_login rt ns h e p]
  show ?thesis
    by simp
qed

text \<open>Claim C3 as stated fails: not every validation of a token sweeps first. A login at
  time 0 leaves a session row that expires at 3600 s. One microsecond after that,
  \<open>verify_token\<close> is asked about the token: it reports the token invalid, and the
  expired row is still in the store it leaves behind.\<close>

theorem verify_token_no_sweep_counterexample:
  "map expires_at
     (admin_sessions
        (snd (admin_login example_codec_ext 0 ''r''
           (example_request [(''username'', ''admin''), (''password'', ''admin123'')] None)
           example_db)))
     = [3600000000]
   \<and> fst (verify_token example_codec_ext 3600000001
       (example_request [] (Some (''Bearer '' @ generate_jwt_token example_codec_ext 0 1)))
       (snd (admin_login example_codec_ext 0 ''r''
          (example_request [(''username'', ''admin''), (''password'', ''admin123'')] None)
          example_db)))
     = Success 200 Token_invalid
   \<and> map expires_at
       (admin_sessions
          (snd (verify_token example_codec_ext 3600000001
             (example_request [] (Some (''Bearer '' @ generate_jwt_token example_codec_ext 0 1)))
             (snd (admin_login example_codec_ext 0 ''r''
                (example_request [(''username'', ''admin''), (''password'', ''admin123'')] None)
                example_db)))))
     = [3600000000]"
proof -
  let ?tok = "generate_jwt_token example_codec_ext 0 1"
  let ?req = "example_request [] (Some (''Bearer '' @ ?tok))"
  have h: "authorization ?req = Some (''Bearer '' @ ?tok)"
    by (simp add: example_request_def)
  have sp: "str_split CHR '' '' (''Bearer '' @ ?tok) = [''Bearer'', ?tok]"
    by (simp add: example_token)
  have dec: "jwt_decode example_codec_ext (jwt_secret_key example_codec_ext) ?tok
               = Some \<lparr>jwt_payload.admin_id = 1, exp = 3600, iat = 0\<rparr>"
    using example_jwt_roundtrip [of "''k''" "\<lparr>jwt_payload.admin_id = 1, exp = 3600, iat = 0\<rparr>"]
    by (simp add: generate_jwt_token_def example_codec_ext_def example_ext_def
        epoch_seconds_def hours_def JWT_EXPIRATION_HOURS_def)
  have "verify_token example_codec_ext 3600000001 ?req d = (Success 200 Token_invalid, d)" for d
    by (rule verify_token_expired [OF h sp dec]) (simp_all add: startswith_def)
  then show ?thesis
    by (simp add: example_codec_login)
qed

subsection \<open>The primary key of the session table\<close>

text \<open>The theorems on the sweep assume that no two session rows share an id. The store
  assigns a fresh id at every insertion, so the handlers keep it that way.\<close>

lemma fold_max_ge: "a \<le> fold max xs a \<and> (\<forall>x \<in> set xs. x \<le> fold max xs (a :: int))"
proof (induction xs arbitrary: a)
  case Nil
  show ?case by simp
next
  case (Cons y ys)
  from Cons.IH [of "max y a"] show ?case by auto
qed

lemma next_id_fresh: "next_id ids \<notin> set ids"
  using fold_max_ge [of 0 ids] by (fastforce simp: next_id_def)

lemma insert_session_Inr:
  assumes "insert_session d now s = Inr d'"
  shows "d' = d\<lparr>admin_sessions := admin_sessions d @
                   [s\<lparr>admin_session.id := next_id (map admin_session.id (admin_sessions d)),
                      created_at := now\<rparr>]\<rparr>"
proof (cases "fits d 255 (token s) \<and> fits d 45 (admin_session.ip_address s)")
  case False
  with assms show ?thesis by (simp add: insert_session_def)
next
  case True
  show ?thesis
  proof (cases "token s \<in> set (map token (admin_sessions d))")
    case True
    with \<open>fits d 255 (token s) \<and> fits d 45 (admin_session.ip_address s)\<close> assms
    show ?thesis by (simp add: insert_session_def)
  next
    case False
    with \<open>fits d 255 (token s) \<and> fits d 45 (admin_session.ip_address s)\<close> assms
    show ?thesis by (simp add: insert_session_def)
  qed
qed

lemma insert_session_pk:
  assumes "distinct (map admin_session.id (admin_sessions d))"
    and "insert_session d now s = Inr d'"
  shows "distinct (map admin_session.id (admin_sessions d'))"
  using assms(1) next_id_fresh [of "map admin_session.id (admin_sessions d)"]
  by (simp add: insert_session_Inr [OF assms(2)])

lemma admin_login_pk:
  assumes "distinct (map admin_session.id (admin_sessions d))"
  shows "distinct (map admin_session.id (admin_sessions (snd (admin_login ext now rt req d))))"
proof (cases "admin_login ext now rt req d")
  case (Pair r d')
  show ?thesis
  proof (cases r)
    case (Failure st code)
    with Pair have "d' = d"
      using admin_login_failure_store [of ext now rt req d st code d'] by simp
    with Pair assms show ?thesis by simp
  next
    case (Success st body)
    obtain tok ex aid nm em where "body = (tok, ex, aid, nm, em)"
      by (cases body)
    with Success Pair have "admin_login ext now rt req d = (Success st (tok, ex, aid, nm, em), d')"
      by simp
    from admin_login_success [OF this]
    have "map admin_session.id (admin_sessions d')
            = map admin_session.id (admin_sessions d)
              @ [next_id (map admin_session.id (admin_sessions d))]"
      by simp
    with Pair assms next_id_fresh [of "map admin_session.id (admin_sessions d)"]
    show ?thesis by simp
  qed
qed

lemma require_admin_auth_pk:
  assumes "distinct (map admin_session.id (admin_sessions d))"
  shows "distinct (map admin_session.id
           (admin_sessions (snd (require_admin_auth ext now req d))))"
  using assms
  by (simp add: require_admin_auth_store cleanup_expired_sessions_distinct distinct_map_filter)

lemma change_password_failure_store:
  assumes "change_password ext now sb req d = (Failure st code, d')"
  shows "d' = snd (cleanup_expired_sessions now d)"
proof (cases "require_admin_auth ext now req d")
  case (Pair r d1)
  then have d1: "d1 = snd (cleanup_expired_sessions now d)"
    using require_admin_auth_store [of ext now req d] by simp
  show ?thesis
  proof (cases r)
    case (Inl e)
    with Pair assms d1 show ?thesis
      by (simp add: change_password_def split: prod.splits)
  next
    case (Inr admin)
    with Pair assms d1 show ?thesis
      by (simp add: change_password_def Let_def
          split: option.splits sum.splits bool.splits if_splits)
  qed
qed

lemma change_password_pk:
  assumes "distinct (map admin_session.id (admin_sessions d))"
  shows "distinct (map admin_session.id
           (admin_sessions (snd (change_password ext now sb req d))))"
proof (cases "change_password ext now sb req d")
  case (Pair r d')
  have p: "distinct (map admin_session.id (admin_sessions (snd (cleanup_expired_sessions now d))))"
    using assms by (simp add: cleanup_expired_sessions_distinct distinct_map_filter)
  show ?thesis
  proof (cases r)
    case (Success st u)
    with Pair change_password_success [of ext now sb req d st u d'] obtain admin new where
      "d' = delete_sessions_of
                  (update_admin (snd (cleanup_expired_sessions now d))
                     (admin\<lparr>password_hash := hash_password ext sb new\<rparr>))
                  (admin_user.id admin)"
      by auto
    with Pair p show ?thesis
      by (simp add: delete_sessions_of_def update_admin_def distinct_map_filter)
  next
    case (Failure st code)
    with Pair change_password_failure_store [of ext now sb req d st code d'] p show ?thesis
      by simp
  qed
qed

end
